theory Spec2Isabelle
  imports Main "HOL-Library.Sublist"
begin

section \<open>JavaScript strings\<close>

text \<open>
  A JavaScript string is a sequence of code units. The model uses \<^typ>\<open>string\<close>; a
  \<^typ>\<open>char\<close> stands for a code unit in the range 0..255. The literals the handlers
  compare against (\<open>PMC\<close>, \<open>pdf\<close>, \<open>http\<close>, \<open>.pdf\<close>, \<open>Unknown\<close>) are ASCII.
\<close>

text \<open>White space as \<open>String.prototype.trim\<close> and \<open>parseInt\<close> see it: TAB, LF, VT, FF, CR,
  SPACE and NBSP are the white-space and line-terminator code units below 256.\<close>

definition is_ws :: "char \<Rightarrow> bool" where
  "is_ws c = ((of_char c :: nat) \<in> {9, 10, 11, 12, 13, 32, 160})"

definition trimStart :: "string \<Rightarrow> string" where
  "trimStart s = dropWhile is_ws s"

definition trim :: "string \<Rightarrow> string" where
  "trim s = rev (dropWhile is_ws (rev (dropWhile is_ws s)))"

text \<open>\<open>s.padStart(n, c)\<close> for a one-character filler \<open>c\<close>.\<close>

definition padStart :: "nat \<Rightarrow> char \<Rightarrow> string \<Rightarrow> string" where
  "padStart n c s = (if n \<le> length s then s else replicate (n - length s) c @ s)"

text \<open>\<open>toLowerCase\<close> and the canonical (upper-case) form of a code unit. The ASCII
  letters are mapped; every other code unit is left as it is, which changes no test of the
  handlers: they look for the ASCII letters of \<open>pdf\<close> and \<open>PMC\<close> only, and no code unit
  other than an ASCII letter has an ASCII letter as its lower-case or canonical form.\<close>

definition lower_char :: "char \<Rightarrow> char" where
  "lower_char c =
     (case map_of (zip ''ABCDEFGHIJKLMNOPQRSTUVWXYZ'' ''abcdefghijklmnopqrstuvwxyz'') c of
        None \<Rightarrow> c | Some l \<Rightarrow> l)"

definition upper_char :: "char \<Rightarrow> char" where
  "upper_char c =
     (case map_of (zip ''abcdefghijklmnopqrstuvwxyz'' ''ABCDEFGHIJKLMNOPQRSTUVWXYZ'') c of
        None \<Rightarrow> c | Some u \<Rightarrow> u)"

definition toLowerCase :: "string \<Rightarrow> string" where
  "toLowerCase s = map lower_char s"

definition startsWith :: "string \<Rightarrow> string \<Rightarrow> bool" where
  "startsWith s p = prefix p s"

definition endsWith :: "string \<Rightarrow> string \<Rightarrow> bool" where
  "endsWith s p = suffix p s"

definition str_includes :: "string \<Rightarrow> string \<Rightarrow> bool" where
  "str_includes s p = sublist p s"

text \<open>\<open>xs.join(sep)\<close> on an array of strings.\<close>

fun join :: "string \<Rightarrow> string list \<Rightarrow> string" where
  "join sep [] = []"
| "join sep [x] = x"
| "join sep (x # y # ys) = x @ sep @ join sep (y # ys)"

text \<open>\<open>xs.findIndex(P)\<close>: the first index whose element satisfies \<open>P\<close>; \<open>None\<close> is the
  source's \<open>-1\<close>.\<close>

fun findIndex :: "('a \<Rightarrow> bool) \<Rightarrow> 'a list \<Rightarrow> nat option" where
  "findIndex P [] = None"
| "findIndex P (x # xs) =
     (if P x then Some 0 else (case findIndex P xs of None \<Rightarrow> None | Some i \<Rightarrow> Some (Suc i)))"

text \<open>Decimal rendering of a non-negative number, as a template literal prints it.\<close>

fun string_of_nat :: "nat \<Rightarrow> string" where
  "string_of_nat n =
     (if n < 10 then [''0123456789'' ! n]
      else string_of_nat (n div 10) @ [''0123456789'' ! (n mod 10)])"

declare string_of_nat.simps [simp del]

text \<open>
  The numbers that \<open>parseInt\<close> can return: \<open>NaN\<close>, an integer that a double represents
  exactly, and the two infinities. Negative zero is not told apart from zero: the handlers
  compare and print both alike.
\<close>

datatype number = NaN | Num int | PosInf | NegInf

definition isNaN :: "number \<Rightarrow> bool" where
  "isNaN x = (x = NaN)"

text \<open>The comparisons \<open>a < b\<close> and \<open>a <= b\<close> of JavaScript; every comparison with \<open>NaN\<close> is
  false.\<close>

fun num_lt :: "number \<Rightarrow> number \<Rightarrow> bool" where
  "num_lt (Num a) (Num b) = (a < b)"
| "num_lt NegInf (Num b) = True"
| "num_lt NegInf PosInf = True"
| "num_lt (Num a) PosInf = True"
| "num_lt a b = False"

definition num_le :: "number \<Rightarrow> number \<Rightarrow> bool" where
  "num_le a b = (num_lt a b \<or> (a = b \<and> a \<noteq> NaN))"

text \<open>
  The double nearest to a non-negative integer, ties to the even significand: a number below
  \<open>2 ^ 53\<close> is kept, a larger one keeps its leading 53 bits, rounded; \<open>None\<close> is the overflow
  to infinity at \<open>2 ^ 1024\<close>.
\<close>

fun bit_length :: "int \<Rightarrow> nat" where
  "bit_length n = (if n \<le> 0 then 0 else Suc (bit_length (n div 2)))"

declare bit_length.simps [simp del]

definition to_double :: "int \<Rightarrow> int option" where
  "to_double n =
     (if n < 2 ^ 53 then Some n
      else
        (let shift = bit_length n - 53;
             q = n div 2 ^ shift;
             r = n mod 2 ^ shift;
             half = 2 ^ (shift - 1);
             m = (if half < r \<or> (r = half \<and> odd q) then q + 1 else q);
             v = m * 2 ^ shift
         in if 2 ^ 1024 \<le> v then None else Some v))"

text \<open>\<open>parseInt(s, 10)\<close>: leading white space is skipped, one sign is accepted, the longest
  run of decimal digits is read; without a digit the result is \<open>NaN\<close>. The value of the
  digits is rounded to a double, as the engine of Node.js does it.\<close>

definition is_digit :: "char \<Rightarrow> bool" where
  "is_digit c = (48 \<le> (of_char c :: nat) \<and> (of_char c :: nat) \<le> 57)"

definition digits_value :: "string \<Rightarrow> int" where
  "digits_value ds = foldl (\<lambda>a c. 10 * a + (int (of_char c) - 48)) 0 ds"

definition parseInt :: "string \<Rightarrow> number" where
  "parseInt s =
     (let t = trimStart s;
          neg = (case t of [] \<Rightarrow> False | c # cs \<Rightarrow> c = CHR ''-'');
          u = (case t of
                 [] \<Rightarrow> []
               | c # cs \<Rightarrow> if c = CHR ''-'' \<or> c = CHR ''+'' then cs else t);
          ds = takeWhile is_digit u
      in if ds = [] then NaN
         else
           (case to_double (digits_value ds) of
              None \<Rightarrow> if neg then NegInf else PosInf
            | Some v \<Rightarrow> Num (if neg then - v else v)))"


section \<open>JSON values\<close>

datatype json =
    JNull
  | JBool bool
  | JNum int
  | JStr string
  | JArr "json list"
  | JObj "(string \<times> json) list"

fun is_string :: "json \<Rightarrow> bool" where
  "is_string (JStr s) = True"
| "is_string v = False"


section \<open>The ID sanitizer\<close>

text \<open>
  \<^verbatim>\<open>function cleanPmcId(id) {
    if (typeof id === 'string') { return id.replace(/^(PMC|pmc)/i, ''); }
    return id;
  }\<close>
  The regular expression is anchored at the start and has no \<open>g\<close> flag, so \<open>replace\<close> removes
  at most one match. Under the \<open>i\<close> flag a pattern character matches an input character when
  both have the same canonical (upper-case) form.
\<close>

definition matches_ci_at_start :: "string \<Rightarrow> string \<Rightarrow> bool" where
  "matches_ci_at_start lit s =
     (length lit \<le> length s \<and> map upper_char (take (length lit) s) = map upper_char lit)"

definition has_pmc_prefix :: "string \<Rightarrow> bool" where
  "has_pmc_prefix s = (matches_ci_at_start ''PMC'' s \<or> matches_ci_at_start ''pmc'' s)"

definition cleanPmcIdStr :: "string \<Rightarrow> string" where
  "cleanPmcIdStr s = (if has_pmc_prefix s then drop 3 s else s)"

fun cleanPmcId :: "json \<Rightarrow> json" where
  "cleanPmcId (JStr s) = JStr (cleanPmcIdStr s)"
| "cleanPmcId v = v"


section \<open>XML documents and selectors\<close>

text \<open>
  The XML parser is a library; the model starts from the parsed tree. A node is a text node
  or an element with its name, its attributes (by qualified name) and its children. Comments
  and processing instructions contribute nothing to \<open>textContent\<close> or to selector matching
  and are left out.
\<close>

datatype node = Text string | Elem string "(string \<times> string) list" "node list"

text \<open>Name and attributes of an element: all that a selector looks at.\<close>

type_synonym head = "string \<times> (string \<times> string) list"

text \<open>
  An element as the DOM hands it out: the element together with its chain of ancestors
  (nearest first). \<open>querySelector\<close> on an element searches its descendants, but a compound
  selector such as \<open>abstract p\<close> is matched against the whole document, so the ancestors
  of the context element count as well.
\<close>

datatype element =
  Element (ancestors: "head list") (tag: string) (attrs: "(string \<times> string) list")
    (children: "node list")

fun textContent_node :: "node \<Rightarrow> string" where
  "textContent_node (Text s) = s"
| "textContent_node (Elem t as cs) = concat (map textContent_node cs)"

definition textContent :: "element \<Rightarrow> string" where
  "textContent e = concat (map textContent_node (children e))"

definition getAttribute :: "element \<Rightarrow> string \<Rightarrow> string option" where
  "getAttribute e k = map_of (attrs e) k"

text \<open>The elements of a subtree in document order, each with its ancestors.\<close>

fun elems :: "head list \<Rightarrow> node \<Rightarrow> element list" where
  "elems anc (Text s) = []"
| "elems anc (Elem t as cs) = Element anc t as cs # concat (map (elems ((t, as) # anc)) cs)"

definition descendants :: "element \<Rightarrow> element list" where
  "descendants e = concat (map (elems ((tag e, attrs e) # ancestors e)) (children e))"

text \<open>
  The selectors the handlers use: a type selector \<open>name\<close>, a type selector with one
  attribute test \<open>name[attr='value']\<close>, and two of these joined by the child combinator
  \<open>A > B\<close> or the descendant combinator \<open>A B\<close>. In an XML document names and attribute
  values are compared exactly.
\<close>

datatype simple_sel = Tag string | TagAttr string string string

datatype selector = Sel simple_sel | Child simple_sel simple_sel | Desc simple_sel simple_sel

fun matches_head :: "simple_sel \<Rightarrow> head \<Rightarrow> bool" where
  "matches_head (Tag n) (t, as) = (t = n)"
| "matches_head (TagAttr n k v) (t, as) = (t = n \<and> map_of as k = Some v)"

fun matches :: "selector \<Rightarrow> element \<Rightarrow> bool" where
  "matches (Sel s) e = matches_head s (tag e, attrs e)"
| "matches (Child p s) e =
     (matches_head s (tag e, attrs e) \<and>
      (case ancestors e of [] \<Rightarrow> False | h # _ \<Rightarrow> matches_head p h))"
| "matches (Desc p s) e =
     (matches_head s (tag e, attrs e) \<and> list_ex (matches_head p) (ancestors e))"

definition querySelectorAll :: "element \<Rightarrow> selector \<Rightarrow> element list" where
  "querySelectorAll e sel = filter (matches sel) (descendants e)"

definition querySelector :: "element \<Rightarrow> selector \<Rightarrow> element option" where
  "querySelector e sel = (case querySelectorAll e sel of [] \<Rightarrow> None | x # _ \<Rightarrow> Some x)"

text \<open>A document is given by its root node; \<open>document.querySelectorAll\<close> searches all of
  its elements, the root included.\<close>

definition doc_querySelectorAll :: "node \<Rightarrow> selector \<Rightarrow> element list" where
  "doc_querySelectorAll root sel = filter (matches sel) (elems [] root)"

definition doc_querySelector :: "node \<Rightarrow> selector \<Rightarrow> element option" where
  "doc_querySelector root sel =
     (case doc_querySelectorAll root sel of [] \<Rightarrow> None | x # _ \<Rightarrow> Some x)"

text \<open>\<open>e?.textContent || ''\<close> and \<open>e?.textContent?.trim() || ''\<close>.\<close>

fun text_or_empty :: "element option \<Rightarrow> string" where
  "text_or_empty None = []"
| "text_or_empty (Some e) = textContent e"

fun trimmed_text :: "element option \<Rightarrow> string" where
  "trimmed_text None = []"
| "trimmed_text (Some e) = trim (textContent e)"


section \<open>Paper records\<close>

text \<open>The single-paper endpoint returns the first nine fields; the batch endpoint adds
  \<open>authorsArray\<close>.\<close>

record paperData =
  pmcid :: string
  uid :: string
  title :: string
  articletitle :: string
  sortfirstauthor :: string
  authors :: string
  source :: string
  pubdate :: string
  pdfUrl :: string

record paper = paperData +
  authorsArray :: "string list"

definition pdf_template :: "string \<Rightarrow> string" where
  "pdf_template pmcId = ''https://www.ncbi.nlm.nih.gov/pmc/articles/PMC'' @ pmcId @ ''/pdf/''"

text \<open>\<open>authors.length > 0 ? authors[0] : dflt\<close>.\<close>

fun first_or :: "string \<Rightarrow> string list \<Rightarrow> string" where
  "first_or dflt [] = dflt"
| "first_or dflt (a # as) = a"


section \<open>The PubMed normalizer\<close>

text \<open>Field extraction from one \<open>PubmedArticle\<close> element (\<open>api/papers.js\<close> lines 85 to 142;
  the same statements stand in \<open>server.js\<close> and in \<open>api/paper/[id].js\<close>).\<close>

definition pubmed_abstract :: "element \<Rightarrow> string" where
  "pubmed_abstract art =
     (let abstractElements = querySelectorAll art (Child (Tag ''Abstract'') (Tag ''AbstractText''))
      in if abstractElements \<noteq> [] then
           join '' '' (map (\<lambda>el.
             let text = trim (textContent el) in
             (case getAttribute el ''Label'' of
                None \<Rightarrow> text
              | Some label \<Rightarrow> if label \<noteq> [] then label @ '': '' @ text else text))
             abstractElements)
         else ''No abstract available.'')"

definition pubmed_author_name :: "element \<Rightarrow> string" where
  "pubmed_author_name authorEl =
     (let firstName = text_or_empty (querySelector authorEl (Sel (Tag ''ForeName'')));
          lastName = text_or_empty (querySelector authorEl (Sel (Tag ''LastName'')));
          fullName = trim (firstName @ '' '' @ lastName);
          collective = text_or_empty (querySelector authorEl (Sel (Tag ''CollectiveName'')))
      in if fullName \<noteq> [] then fullName
         else if collective \<noteq> [] then collective
         else ''Unknown'')"

definition pubmed_authors :: "element \<Rightarrow> string list" where
  "pubmed_authors art =
     (case querySelector art (Sel (Tag ''AuthorList'')) of
        None \<Rightarrow> []
      | Some authorList \<Rightarrow>
          filter (\<lambda>name. name \<noteq> [] \<and> name \<noteq> ''Unknown'')
            (map pubmed_author_name (querySelectorAll authorList (Sel (Tag ''Author'')))))"

definition pubmed_journal :: "element \<Rightarrow> string" where
  "pubmed_journal art =
     (let medlineTA = text_or_empty (querySelector art (Sel (Tag ''MedlineTA'')))
      in if medlineTA \<noteq> [] then medlineTA
         else text_or_empty (querySelector art (Child (Tag ''Journal'') (Tag ''Title''))))"

definition pubmed_pubDate :: "element \<Rightarrow> string" where
  "pubmed_pubDate art =
     (case querySelector art (Sel (Tag ''PubDate'')) of
        None \<Rightarrow> []
      | Some pubDateElement \<Rightarrow>
          (let year = trimmed_text (querySelector pubDateElement (Sel (Tag ''Year'')));
               month = trimmed_text (querySelector pubDateElement (Sel (Tag ''Month'')));
               day = trimmed_text (querySelector pubDateElement (Sel (Tag ''Day'')))
           in if year \<noteq> [] \<and> month \<noteq> [] \<and> day \<noteq> [] then
                year @ ''-'' @ padStart 2 CHR ''0'' month @ ''-'' @ padStart 2 CHR ''0'' day
              else if year \<noteq> [] \<and> month \<noteq> [] then
                year @ ''-'' @ padStart 2 CHR ''0'' month
              else if year \<noteq> [] then year
              else (let fallback =
                          trimmed_text (querySelector art (Child (Tag ''PubStatus'') (Tag ''Year'')))
                    in if fallback \<noteq> [] then fallback else year)))"

definition pubmed_pmcId :: "element \<Rightarrow> string" where
  "pubmed_pmcId art =
     (case querySelector art (Sel (Tag ''ArticleIdList'')) of
        None \<Rightarrow> []
      | Some articleIdList \<Rightarrow>
          (case find (\<lambda>el. getAttribute el ''IdType'' = Some ''pmc'')
                  (querySelectorAll articleIdList (Sel (Tag ''ArticleId''))) of
             None \<Rightarrow> []
           | Some pmcIdElement \<Rightarrow> textContent pmcIdElement))"

definition pubmed_pdfUrl :: "string \<Rightarrow> string" where
  "pubmed_pdfUrl cleanedPmcId = (if cleanedPmcId \<noteq> [] then pdf_template cleanedPmcId else [])"

definition pubmed_paper :: "element \<Rightarrow> paper" where
  "pubmed_paper art =
     (let pmid = text_or_empty (querySelector art (Sel (Tag ''PMID'')));
          articleTitle = text_or_empty (querySelector art (Sel (Tag ''ArticleTitle'')));
          abstract = pubmed_abstract art;
          authorList = pubmed_authors art;
          firstAuthor = first_or ''Unknown'' authorList;
          journal = pubmed_journal art;
          pubDate = pubmed_pubDate art;
          cleanedPmcId = cleanPmcIdStr (pubmed_pmcId art)
      in \<lparr> pmcid = cleanedPmcId, uid = pmid, title = trim articleTitle,
           articletitle = trim abstract, sortfirstauthor = firstAuthor,
           authors = join '', '' authorList, source = trim journal, pubdate = pubDate,
           pdfUrl = pubmed_pdfUrl cleanedPmcId, authorsArray = authorList \<rparr>)"

definition pubmed_papers :: "node \<Rightarrow> paper list" where
  "pubmed_papers xmlDoc = map pubmed_paper (doc_querySelectorAll xmlDoc (Sel (Tag ''PubmedArticle'')))"


section \<open>The PMC normalizer\<close>

text \<open>Field extraction from one \<open>article\<close> element (\<open>api/papers.js\<close> lines 160 to 220; the
  same statements stand in \<open>server.js\<close> and in \<open>api/paper/[id].js\<close>).\<close>

definition pmc_id :: "element \<Rightarrow> string" where
  "pmc_id article =
     cleanPmcIdStr (text_or_empty
       (querySelector article (Sel (TagAttr ''article-id'' ''pub-id-type'' ''pmc''))))"

definition pmc_abstract_paragraphs :: "element \<Rightarrow> element list" where
  "pmc_abstract_paragraphs article = querySelectorAll article (Desc (Tag ''abstract'') (Tag ''p''))"

definition pmc_abstract :: "element \<Rightarrow> string" where
  "pmc_abstract article =
     (let abstractElements = pmc_abstract_paragraphs article
      in if abstractElements \<noteq> [] then join '' '' (map textContent abstractElements)
         else ''No abstract available.'')"

definition pmc_author_name :: "element \<Rightarrow> string" where
  "pmc_author_name nameEl =
     (let firstName = text_or_empty (querySelector nameEl (Sel (Tag ''given-names'')));
          lastName = text_or_empty (querySelector nameEl (Sel (Tag ''surname'')));
          fullName = trim (firstName @ '' '' @ lastName)
      in if fullName \<noteq> [] then fullName else trim (textContent nameEl))"

definition pmc_authors :: "element \<Rightarrow> string list" where
  "pmc_authors article =
     filter (\<lambda>name. name \<noteq> [])
       (map pmc_author_name
         (querySelectorAll article
           (Desc (TagAttr ''contrib'' ''contrib-type'' ''author'') (Tag ''name''))))"

text \<open>The date composition starts from an initial value (\<open>''\<close> in the normalizer, the
  record's present \<open>pubdate\<close> in the enrichment pass) and overwrites it when a year is found.\<close>

definition pmc_pubDate :: "string \<Rightarrow> element \<Rightarrow> string" where
  "pmc_pubDate initial article =
     (case querySelector article (Sel (Tag ''pub-date'')) of
        None \<Rightarrow> initial
      | Some pubDateElement \<Rightarrow>
          (let year = trimmed_text (querySelector pubDateElement (Sel (Tag ''year'')));
               month = trimmed_text (querySelector pubDateElement (Sel (Tag ''month'')));
               day = trimmed_text (querySelector pubDateElement (Sel (Tag ''day'')))
           in if year \<noteq> [] \<and> month \<noteq> [] \<and> day \<noteq> [] then
                year @ ''-'' @ padStart 2 CHR ''0'' month @ ''-'' @ padStart 2 CHR ''0'' day
              else if year \<noteq> [] \<and> month \<noteq> [] then
                year @ ''-'' @ padStart 2 CHR ''0'' month
              else if year \<noteq> [] then year
              else initial))"

text \<open>The three steps of the PDF link, each one a conditional assignment to \<open>pdfUrl\<close>.\<close>

definition self_uri_pdf :: "element \<Rightarrow> string \<Rightarrow> string" where
  "self_uri_pdf article pmcIdInXml =
     (case querySelector article (Sel (Tag ''self-uri'')) of
        None \<Rightarrow> []
      | Some selfUri \<Rightarrow>
          (case getAttribute selfUri ''content-type'' of
             None \<Rightarrow> []
           | Some selfUriContent \<Rightarrow>
               (case getAttribute selfUri ''xlink:href'' of
                  None \<Rightarrow> []
                | Some selfUriHref \<Rightarrow>
                    if selfUriContent \<noteq> [] \<and> str_includes (toLowerCase selfUriContent) ''pdf''
                       \<and> selfUriHref \<noteq> []
                    then (if startsWith selfUriHref ''http'' then selfUriHref
                          else pdf_template pmcIdInXml)
                    else [])))"

text \<open>The loop over the \<open>ext-link\<close> elements, left at the first href that ends in \<open>.pdf\<close>;
  the variable keeps its value \<open>url\<close> when the loop runs to its end.\<close>

fun ext_link_pdf :: "string \<Rightarrow> element list \<Rightarrow> string" where
  "ext_link_pdf url [] = url"
| "ext_link_pdf url (link # extLinks) =
     (case getAttribute link ''xlink:href'' of
        None \<Rightarrow> ext_link_pdf url extLinks
      | Some extLinkHref \<Rightarrow>
          if extLinkHref \<noteq> [] \<and> endsWith (toLowerCase extLinkHref) ''.pdf'' then extLinkHref
          else ext_link_pdf url extLinks)"

definition pmc_pdfUrl :: "element \<Rightarrow> string \<Rightarrow> string" where
  "pmc_pdfUrl article pmcIdInXml =
     (let pdfUrl1 = self_uri_pdf article pmcIdInXml;
          pdfUrl2 = (if pdfUrl1 = []
                     then ext_link_pdf pdfUrl1 (querySelectorAll article (Sel (Tag ''ext-link'')))
                     else pdfUrl1)
      in if pdfUrl2 = [] then pdf_template pmcIdInXml else pdfUrl2)"

definition pmc_paper :: "element \<Rightarrow> paper" where
  "pmc_paper article =
     (let pmcIdInXml = pmc_id article;
          pmid = text_or_empty
                   (querySelector article (Sel (TagAttr ''article-id'' ''pub-id-type'' ''pmid'')));
          titleText = text_or_empty (querySelector article (Sel (Tag ''article-title'')));
          abstract = pmc_abstract article;
          authorList = pmc_authors article;
          firstAuthor = first_or ''Unknown'' authorList;
          journal = text_or_empty (querySelector article (Sel (Tag ''journal-title'')));
          pubDate = pmc_pubDate [] article
      in \<lparr> pmcid = pmcIdInXml, uid = pmid, title = trim titleText, articletitle = trim abstract,
           sortfirstauthor = firstAuthor, authors = join '', '' authorList,
           source = trim journal, pubdate = pubDate,
           pdfUrl = pmc_pdfUrl article pmcIdInXml, authorsArray = authorList \<rparr>)"

definition pmc_papers :: "node \<Rightarrow> paper list" where
  "pmc_papers xmlDoc = map pmc_paper (doc_querySelectorAll xmlDoc (Sel (Tag ''article'')))"


section \<open>The enrichment pass\<close>

text \<open>The body of the loop over the PMC articles (\<open>api/papers.js\<close> lines 254 to 329,
  \<open>server.js\<close> lines 350 to 425): the record found by \<open>findIndex\<close> is replaced by a copy with
  eight fields overwritten. Where the PMC article has no value, the record's present value
  is used.\<close>

definition overlay :: "paper \<Rightarrow> element \<Rightarrow> string \<Rightarrow> paper" where
  "overlay p article pmcIdInXml =
     (let t = text_or_empty (querySelector article (Sel (Tag ''article-title'')));
          titleInXml = (if t \<noteq> [] then t else title p);
          abstractElementsInXml = pmc_abstract_paragraphs article;
          abstractInXml = (if abstractElementsInXml \<noteq> []
                           then join '' '' (map textContent abstractElementsInXml)
                           else articletitle p);
          authorsInXml = pmc_authors article;
          firstAuthorInXml = first_or (sortfirstauthor p) authorsInXml;
          j = text_or_empty (querySelector article (Sel (Tag ''journal-title'')));
          journalInXml = (if j \<noteq> [] then j else source p);
          pubDateInXml = pmc_pubDate (pubdate p) article;
          pdfUrlInXml = pmc_pdfUrl article pmcIdInXml
      in p \<lparr> title := trim titleInXml, articletitle := trim abstractInXml,
             sortfirstauthor := firstAuthorInXml, authors := join '', '' authorsInXml,
             authorsArray := authorsInXml, source := trim journalInXml,
             pubdate := pubDateInXml, pdfUrl := pdfUrlInXml \<rparr>)"

definition enrich_step :: "paper list \<Rightarrow> element \<Rightarrow> paper list" where
  "enrich_step papers article =
     (let pmcIdInXml = pmc_id article
      in case findIndex (\<lambda>p. pmcid p = pmcIdInXml) papers of
           None \<Rightarrow> papers
         | Some paperIndex \<Rightarrow>
             papers[paperIndex := overlay (papers ! paperIndex) article pmcIdInXml])"

definition enrich :: "paper list \<Rightarrow> element list \<Rightarrow> paper list" where
  "enrich papers pmcArticles = foldl enrich_step papers pmcArticles"


section \<open>Requests, responses and outbound calls\<close>

text \<open>A query parameter is a string, or an array of strings when the name is repeated.
  \<open>req.query\<close> and a parsed JSON object are association lists with one entry per name.\<close>

datatype qparam = QStr string | QArr "string list"

record request =
  req_method :: string
  req_query :: "(string \<times> qparam) list"
  req_body :: "json option"

definition query_param :: "request \<Rightarrow> string \<Rightarrow> qparam option" where
  "query_param req k = map_of (req_query req) k"

text \<open>\<open>String(v)\<close>, as \<open>parseInt\<close>, \<open>encodeURIComponent\<close> and template literals apply it.\<close>

fun to_string :: "qparam \<Rightarrow> string" where
  "to_string (QStr s) = s"
| "to_string (QArr xs) = join '','' xs"

text \<open>The same for a parameter that may be missing: \<open>String(undefined)\<close> is
  \<open>undefined\<close>.\<close>

fun param_string :: "qparam option \<Rightarrow> string" where
  "param_string None = ''undefined''"
| "param_string (Some q) = to_string q"

text \<open>Truthiness of a parameter: \<open>undefined\<close> and \<open>''\<close> are falsy, an array is truthy.\<close>

fun truthy_param :: "qparam option \<Rightarrow> bool" where
  "truthy_param None = False"
| "truthy_param (Some (QStr s)) = (s \<noteq> [])"
| "truthy_param (Some (QArr xs)) = True"

text \<open>Truthiness of an optional string field, and the field inside a template literal.\<close>

fun truthy :: "string option \<Rightarrow> bool" where
  "truthy None = False"
| "truthy (Some s) = (s \<noteq> [])"

fun template :: "string option \<Rightarrow> string" where
  "template None = ''undefined''"
| "template (Some s) = s"

datatype body =
    NoBody
  | ErrorBody string "string option"
  | SearchBody "string list" number number number
  | PapersBody "paper list" nat
  | PaperBody paperData

text \<open>\<open>ErrorBody e d\<close> is \<open>{error: e, details: d}\<close>, \<open>SearchBody i t s m\<close> is
  \<open>{ids: i, total: t, retstart: s, retmax: m}\<close>, \<open>PapersBody ps t\<close> is
  \<open>{papers: ps, total: t}\<close>. The numbers of a \<open>SearchBody\<close> are the values handed to
  \<open>res.json\<close>, which writes an infinity as \<open>null\<close>.\<close>

datatype response = Response (status: nat) (body: body)

text \<open>The outcome of \<open>axios.get\<close>: a response, or a rejection. A rejection carries the
  upstream response (status and body) when the server answered outside 2xx, only the
  request when nothing came back (network failure, timeout), or neither.\<close>

datatype axios_error =
    HttpError nat string string
  | NoResponse string
  | OtherError string

fun error_message :: "axios_error \<Rightarrow> string" where
  "error_message (HttpError st dat msg) = msg"
| "error_message (NoResponse msg) = msg"
| "error_message (OtherError msg) = msg"

datatype 'a outcome = Fulfilled nat 'a | Rejected axios_error

text \<open>
  An outbound call is recorded by the parameters that go into its URL:
  \<^item> \<open>ESearchHistory db term\<close>: \<open>esearch.fcgi?db=..&term=..&usehistory=y&retmode=json\<close>;
  \<^item> \<open>ESearchPage db querykey webenv start max\<close>:
    \<open>esearch.fcgi?db=..&query_key=..&WebEnv=..&retstart=..&retmax=..&retmode=json\<close>;
  \<^item> \<open>EFetch db id\<close>: \<open>efetch.fcgi?db=..&id=..&retmode=xml\<close>.
  Every handler returns its response together with the list of calls it made, in order.
\<close>

datatype call =
    ESearchHistory string string
  | ESearchPage string string string number number
  | EFetch string string

text \<open>The \<open>esearchresult\<close> object of an ESearch answer; a missing field is \<open>None\<close>. The
  handlers take the body of an answer as \<open>esearchresult option\<close>: \<open>None\<close> is a JSON body
  without an \<open>esearchresult\<close> property.\<close>

record esearchresult =
  ERROR :: "string option"
  count :: "string option"
  webenv :: "string option"
  querykey :: "string option"
  idlist :: "string list option"

text \<open>The body of an EFetch answer, as \<open>new JSDOM(data, {contentType: "text/xml"})\<close> takes
  it: the parsed document, or an exception with its message.\<close>

datatype xml_body = WellFormed node | Malformed string

definition SUPPORTED_DATABASES :: "string list" where
  "SUPPORTED_DATABASES = [''pubmed'', ''pmc'']"

definition invalid_database :: response where
  "invalid_database =
     Response 400 (ErrorBody (''Invalid database. Supported databases: '' @
                              join '', '' SUPPORTED_DATABASES) None)"


section \<open>The search endpoint\<close>

text \<open>The \<open>catch\<close> block of \<open>api/search.js\<close> (lines 121 to 133). An exception that is not an
  axios rejection (a \<open>TypeError\<close>) has neither \<open>response\<close> nor \<open>request\<close>.\<close>

fun search_catch :: "axios_error \<Rightarrow> response" where
  "search_catch (HttpError st dat msg) =
     Response st (ErrorBody (''ESearch/ESearch API Error: '' @ string_of_nat st) (Some dat))"
| "search_catch (NoResponse msg) =
     Response 500 (ErrorBody ''No response from ESearch/ESearch API'' (Some msg))"
| "search_catch (OtherError msg) =
     Response 500 (ErrorBody ''Internal Server Error during search'' (Some msg))"

text \<open>\<open>(esearchResult && parseInt(esearchResult.count, 10)) || 0\<close>.\<close>

definition parse_count :: "esearchresult \<Rightarrow> number" where
  "parse_count r =
     (case count r of
        None \<Rightarrow> Num 0
      | Some c \<Rightarrow> (case parseInt c of NaN \<Rightarrow> Num 0 | n \<Rightarrow> n))"

text \<open>Step 2 (lines 89 to 119): the page of identifiers.\<close>

definition search_page ::
  "(call \<Rightarrow> esearchresult option outcome) \<Rightarrow> string \<Rightarrow> string \<Rightarrow> string \<Rightarrow> number \<Rightarrow> number
     \<Rightarrow> number \<Rightarrow> call list \<Rightarrow> response \<times> call list" where
  "search_page net db qk we start mx cnt calls =
     (let c = ESearchPage db qk we start mx; calls' = calls @ [c] in
      case net c of
        Rejected e \<Rightarrow> (search_catch e, calls')
      | Fulfilled st dat \<Rightarrow>
          if st \<noteq> 200 then
            (Response st (ErrorBody (''ESearch API Error for specific IDs: '' @ string_of_nat st)
                          None), calls')
          else
            (case dat of
               None \<Rightarrow>
                 (search_catch (OtherError
                    ''Cannot read properties of undefined (reading 'idlist')''), calls')
             | Some esearchResultIds \<Rightarrow>
                 if truthy (ERROR esearchResultIds) then
                   (Response 500 (ErrorBody (''ESearch API Error for specific IDs: '' @
                                             template (ERROR esearchResultIds)) None), calls')
                 else
                   (Response 200
                      (SearchBody (case idlist esearchResultIds of None \<Rightarrow> [] | Some l \<Rightarrow> l)
                         cnt start mx), calls')))"

text \<open>Step 1 (lines 50 to 87): the history-creating search, the token check and the
  short-circuit.\<close>

definition search_history ::
  "(call \<Rightarrow> esearchresult option outcome) \<Rightarrow> string \<Rightarrow> string \<Rightarrow> number \<Rightarrow> number
     \<Rightarrow> response \<times> call list" where
  "search_history net db trm start mx =
     (let c = ESearchHistory db trm in
      case net c of
        Rejected e \<Rightarrow> (search_catch e, [c])
      | Fulfilled st dat \<Rightarrow>
          if st \<noteq> 200 then
            (Response st (ErrorBody (''ESearch History API Error: '' @ string_of_nat st) None), [c])
          else
            (case dat of
               None \<Rightarrow>
                 (search_catch (OtherError
                    ''Cannot read properties of undefined (reading 'webenv')''), [c])
             | Some esearchResult \<Rightarrow>
                 if truthy (ERROR esearchResult) then
                   (Response 500 (ErrorBody (''ESearch History API Error: '' @
                                             template (ERROR esearchResult)) None), [c])
                 else if \<not> truthy (webenv esearchResult) \<or> \<not> truthy (querykey esearchResult) then
                   (Response 500 (ErrorBody
                      ''ESearch History API did not return required WebEnv or QueryKey for pagination.''
                      None), [c])
                 else if num_le (parse_count esearchResult) start then
                   (Response 200 (SearchBody [] (parse_count esearchResult) start mx), [c])
                 else
                   search_page net db (template (querykey esearchResult))
                     (template (webenv esearchResult)) start mx (parse_count esearchResult) [c]))"

text \<open>The handler (lines 8 to 48): method check and parameter validation. The defaults of
  the destructuring are \<open>db = 'pmc'\<close>, \<open>retstart = 0\<close>, \<open>retmax = 10\<close>; \<open>parseInt\<close> of the
  number 0 or 10 is that number.\<close>

definition parse_param :: "number \<Rightarrow> qparam option \<Rightarrow> number" where
  "parse_param dflt v = (case v of None \<Rightarrow> dflt | Some q \<Rightarrow> parseInt (to_string q))"

definition supported_db :: "qparam option \<Rightarrow> string option" where
  "supported_db v =
     (case v of
        None \<Rightarrow> Some ''pmc''
      | Some (QStr d) \<Rightarrow> if d \<in> set SUPPORTED_DATABASES then Some d else None
      | Some (QArr xs) \<Rightarrow> None)"

definition search_handler ::
  "(call \<Rightarrow> esearchresult option outcome) \<Rightarrow> request \<Rightarrow> response \<times> call list" where
  "search_handler net req =
     (if req_method req = ''OPTIONS'' then (Response 200 NoBody, [])
      else if req_method req \<noteq> ''GET'' then
        (Response 405 (ErrorBody ''Method not allowed'' None), [])
      else if \<not> truthy_param (query_param req ''term'') then
        (Response 400 (ErrorBody ''Search term is required'' None), [])
      else
        (case supported_db (query_param req ''db'') of
           None \<Rightarrow> (invalid_database, [])
         | Some db \<Rightarrow>
             (let start = parse_param (Num 0) (query_param req ''retstart'');
                  mx = parse_param (Num 10) (query_param req ''retmax'')
              in if isNaN start \<or> num_lt start (Num 0) then
                   (Response 400 (ErrorBody ''retstart must be a non-negative integer'' None), [])
                 else if isNaN mx \<or> num_le mx (Num 0) \<or> num_lt (Num 10000) mx then
                   (Response 400
                      (ErrorBody ''retmax must be a positive integer, max 10000'' None), [])
                 else
                   search_history net db (param_string (query_param req ''term'')) start mx)))"


section \<open>The batch endpoint\<close>

text \<open>Property access on the parsed body: only an object has named properties.\<close>

fun property :: "json \<Rightarrow> string \<Rightarrow> json option" where
  "property (JObj kvs) k = map_of kvs k"
| "property v k = None"

text \<open>
  \<open>ids.map(cleanPmcId).filter(id => id !== '' && id.trim() !== '')\<close>: the callback calls
  \<open>trim\<close> on every element that is not the empty string, which throws a \<open>TypeError\<close> at the
  first element that is not a string (\<open>Inl\<close> carries its message).
\<close>

fun trim_type_error :: "json \<Rightarrow> string" where
  "trim_type_error JNull = ''Cannot read properties of null (reading 'trim')''"
| "trim_type_error v = ''id.trim is not a function''"

fun filter_ids :: "json list \<Rightarrow> string + string list" where
  "filter_ids [] = Inr []"
| "filter_ids (JStr s # vs) =
     (case filter_ids vs of
        Inl msg \<Rightarrow> Inl msg
      | Inr r \<Rightarrow> Inr (if s \<noteq> [] \<and> trim s \<noteq> [] then s # r else r))"
| "filter_ids (v # vs) = Inl (trim_type_error v)"

text \<open>The \<open>catch\<close> block of \<open>api/papers.js\<close> (lines 335 to 338).\<close>

definition papers_catch :: "string \<Rightarrow> response" where
  "papers_catch msg = Response 500 (ErrorBody ''Failed to fetch papers'' (Some msg))"

text \<open>Lines 240 to 331: the supplementary PMC fetch and the overlay, for \<open>db = pubmed\<close> only.\<close>

definition papers_enrich ::
  "(call \<Rightarrow> xml_body outcome) \<Rightarrow> paper list \<Rightarrow> call list \<Rightarrow> (string + paper list) \<times> call list" where
  "papers_enrich net papers calls =
     (let pmcIds = map pmcid (filter (\<lambda>p. pmcid p \<noteq> []) papers) in
      if pmcIds \<noteq> [] then
        (let c = EFetch ''pmc'' (join '','' pmcIds) in
         case net c of
           Rejected e \<Rightarrow> (Inl (error_message e), calls @ [c])
         | Fulfilled st (Malformed msg) \<Rightarrow> (Inl msg, calls @ [c])
         | Fulfilled st (WellFormed pmcXmlDoc) \<Rightarrow>
             (Inr (enrich papers (doc_querySelectorAll pmcXmlDoc (Sel (Tag ''article'')))),
              calls @ [c]))
      else (Inr papers, calls))"

text \<open>Lines 65 to 238 and 333: the primary fetch, the normalizer for the requested database,
  the enrichment and the answer.\<close>

definition papers_fetch ::
  "(call \<Rightarrow> xml_body outcome) \<Rightarrow> string \<Rightarrow> string list \<Rightarrow> response \<times> call list" where
  "papers_fetch net db cleanedIds =
     (let c = EFetch db (join '','' cleanedIds) in
      case net c of
        Rejected e \<Rightarrow> (papers_catch (error_message e), [c])
      | Fulfilled st (Malformed msg) \<Rightarrow> (papers_catch msg, [c])
      | Fulfilled st (WellFormed xmlDoc) \<Rightarrow>
          if db = ''pubmed'' then
            (case papers_enrich net (pubmed_papers xmlDoc) [c] of
               (Inl msg, calls) \<Rightarrow> (papers_catch msg, calls)
             | (Inr papers, calls) \<Rightarrow> (Response 200 (PapersBody papers (length papers)), calls))
          else if db = ''pmc'' then
            (let papers = pmc_papers xmlDoc
             in (Response 200 (PapersBody papers (length papers)), [c]))
          else
            (Response 400 (ErrorBody (''Unsupported database for EFetch: '' @ db) None), [c]))"

text \<open>Lines 33 to 63: method check, validation of the body and cleaning of the IDs.\<close>

definition papers_handler ::
  "(call \<Rightarrow> xml_body outcome) \<Rightarrow> request \<Rightarrow> response \<times> call list" where
  "papers_handler net req =
     (if req_method req = ''OPTIONS'' then (Response 200 NoBody, [])
      else if req_method req \<noteq> ''POST'' then
        (Response 405 (ErrorBody ''Method not allowed'' None), [])
      else
        (case req_body req of
           None \<Rightarrow>
             (papers_catch ''Cannot destructure property 'ids' of 'req.body' as it is undefined.'',
              [])
         | Some JNull \<Rightarrow>
             (papers_catch ''Cannot destructure property 'ids' of 'req.body' as it is null.'', [])
         | Some b \<Rightarrow>
             (case property b ''ids'' of
                Some (JArr (i # rest)) \<Rightarrow>
                  (case (case property b ''db'' of None \<Rightarrow> Some ''pmc''
                         | Some (JStr d) \<Rightarrow> if d \<in> set SUPPORTED_DATABASES then Some d else None
                         | Some v \<Rightarrow> None) of
                     None \<Rightarrow> (invalid_database, [])
                   | Some db \<Rightarrow>
                       (case filter_ids (map cleanPmcId (i # rest)) of
                          Inl msg \<Rightarrow> (papers_catch msg, [])
                        | Inr [] \<Rightarrow>
                            (Response 400 (ErrorBody ''No valid IDs provided after cleaning.'' None),
                             [])
                        | Inr cleanedIds \<Rightarrow> papers_fetch net db cleanedIds))
              | other \<Rightarrow>
                  (Response 400 (ErrorBody ''IDs array is required and cannot be empty'' None),
                   []))))"


section \<open>The single-paper endpoint\<close>

text \<open>The \<open>catch\<close> block of \<open>api/paper/[id].js\<close> (lines 236 to 239).\<close>

definition paper_catch :: "string \<Rightarrow> response" where
  "paper_catch msg = Response 500 (ErrorBody ''Failed to fetch paper details'' (Some msg))"

text \<open>The two record constructions of the endpoint (lines 147 to 157 and 222 to 232): the
  fields of the batch records without \<open>authorsArray\<close>.\<close>

definition pmc_paperData :: "element \<Rightarrow> paperData" where
  "pmc_paperData articlePMC =
     (let pmcIdParsed = pmc_id articlePMC;
          authorList = pmc_authors articlePMC
      in \<lparr> pmcid = pmcIdParsed,
           uid = text_or_empty
                   (querySelector articlePMC (Sel (TagAttr ''article-id'' ''pub-id-type'' ''pmid''))),
           title = trim (text_or_empty (querySelector articlePMC (Sel (Tag ''article-title'')))),
           articletitle = trim (pmc_abstract articlePMC),
           sortfirstauthor = first_or ''Unknown'' authorList,
           authors = join '', '' authorList,
           source = trim (text_or_empty (querySelector articlePMC (Sel (Tag ''journal-title'')))),
           pubdate = pmc_pubDate [] articlePMC,
           pdfUrl = pmc_pdfUrl articlePMC pmcIdParsed \<rparr>)"

definition pubmed_paperData :: "element \<Rightarrow> paperData" where
  "pubmed_paperData pubmedArticle =
     (let cleanedPmcId = cleanPmcIdStr (pubmed_pmcId pubmedArticle);
          authorList = pubmed_authors pubmedArticle
      in \<lparr> pmcid = cleanedPmcId,
           uid = text_or_empty (querySelector pubmedArticle (Sel (Tag ''PMID''))),
           title = trim (text_or_empty (querySelector pubmedArticle (Sel (Tag ''ArticleTitle'')))),
           articletitle = trim (pubmed_abstract pubmedArticle),
           sortfirstauthor = first_or ''Unknown'' authorList,
           authors = join '', '' authorList,
           source = trim (pubmed_journal pubmedArticle),
           pubdate = pubmed_pubDate pubmedArticle,
           pdfUrl = pubmed_pdfUrl cleanedPmcId \<rparr>)"

text \<open>Lines 62 to 161: the article was not found in PubMed, PMC is asked.\<close>

definition paper_from_pmc ::
  "(call \<Rightarrow> xml_body outcome) \<Rightarrow> string \<Rightarrow> call list \<Rightarrow> response \<times> call list" where
  "paper_from_pmc net pmcId calls =
     (let c = EFetch ''pmc'' pmcId in
      case net c of
        Rejected e \<Rightarrow> (paper_catch (error_message e), calls @ [c])
      | Fulfilled st (Malformed msg) \<Rightarrow> (paper_catch msg, calls @ [c])
      | Fulfilled st (WellFormed xmlDocPMC) \<Rightarrow>
          (case doc_querySelector xmlDocPMC (Sel (Tag ''article'')) of
             None \<Rightarrow>
               (case doc_querySelector xmlDocPMC (Sel (Tag ''ERROR'')) of
                  Some errorElement \<Rightarrow>
                    (Response 404 (ErrorBody ''No article found in PubMed or PMC.''
                                    (Some (textContent errorElement))), calls @ [c])
                | None \<Rightarrow>
                    (Response 404 (ErrorBody ''No article found in PubMed or PMC.'' None),
                     calls @ [c]))
           | Some articlePMC \<Rightarrow> (Response 200 (PaperBody (pmc_paperData articlePMC)), calls @ [c])))"

definition paper_handler ::
  "(call \<Rightarrow> xml_body outcome) \<Rightarrow> request \<Rightarrow> response \<times> call list" where
  "paper_handler net req =
     (if req_method req = ''OPTIONS'' then (Response 200 NoBody, [])
      else if req_method req \<noteq> ''GET'' then
        (Response 405 (ErrorBody ''Method not allowed'' None), [])
      else
        (case query_param req ''id'' of
           None \<Rightarrow> (Response 400 (ErrorBody ''Paper ID is required'' None), [])
         | Some (QArr xs) \<Rightarrow> (paper_catch ''id.trim is not a function'', [])
         | Some (QStr i) \<Rightarrow>
             if i = [] then (Response 400 (ErrorBody ''Paper ID is required'' None), [])
             else
               (let pubmedId = trim i in
                if pubmedId = ''$'' \<or> trim pubmedId = [] then
                  (Response 400 (ErrorBody ''Invalid Paper ID provided.'' None), [])
                else
                  (let c = EFetch ''pubmed'' pubmedId in
                   case net c of
                     Rejected e \<Rightarrow> (paper_catch (error_message e), [c])
                   | Fulfilled st (Malformed msg) \<Rightarrow> (paper_catch msg, [c])
                   | Fulfilled st (WellFormed xmlDoc) \<Rightarrow>
                       (case doc_querySelector xmlDoc (Sel (Tag ''PubmedArticle'')) of
                          None \<Rightarrow> paper_from_pmc net pubmedId [c]
                        | Some pubmedArticle \<Rightarrow>
                            (Response 200 (PaperBody (pubmed_paperData pubmedArticle)), [c]))))))"


section \<open>The PDF link as a fallback chain\<close>

text \<open>
  The fallback chain in the words of the specification, to be compared with \<open>pmc_pdfUrl\<close>:
  (1) the first \<open>self-uri\<close> element of the article when its \<open>content-type\<close> contains \<open>pdf\<close>
  and it has a non-empty \<open>xlink:href\<close>, used as it is when absolute and replaced by the
  template when relative; else (2) the first \<open>ext-link\<close> whose href ends in \<open>.pdf\<close>; else
  (3) the template. Both tests ignore the case of letters.
\<close>

definition spec_self_uri_pdf :: "element \<Rightarrow> string option" where
  "spec_self_uri_pdf article =
     (case querySelector article (Sel (Tag ''self-uri'')) of
        None \<Rightarrow> None
      | Some su \<Rightarrow>
          (case (getAttribute su ''content-type'', getAttribute su ''xlink:href'') of
             (Some ct, Some href) \<Rightarrow>
               if str_includes (toLowerCase ct) ''pdf'' \<and> href \<noteq> [] then Some href else None
           | other \<Rightarrow> None))"

definition spec_ext_link_pdfs :: "element \<Rightarrow> string list" where
  "spec_ext_link_pdfs article =
     filter (\<lambda>href. endsWith (toLowerCase href) ''.pdf'')
       (List.map_filter (\<lambda>link. getAttribute link ''xlink:href'')
          (querySelectorAll article (Sel (Tag ''ext-link''))))"

definition spec_pdfUrl :: "element \<Rightarrow> string" where
  "spec_pdfUrl article =
     (case spec_self_uri_pdf article of
        Some href \<Rightarrow> if startsWith href ''http'' then href else pdf_template (pmc_id article)
      | None \<Rightarrow>
          (case spec_ext_link_pdfs article of
             href # _ \<Rightarrow> href
           | [] \<Rightarrow> pdf_template (pmc_id article)))"


section \<open>Example documents\<close>

text \<open>A PubMed article with a three-part date, as it stands in its document.\<close>

definition ex_dated_children :: "node list" where
  "ex_dated_children =
     [Elem ''PMID'' [] [Text ''111''],
      Elem ''Article'' []
        [Elem ''Journal'' []
           [Elem ''JournalIssue'' []
              [Elem ''PubDate'' []
                 [Elem ''Year'' [] [Text ''2021''], Elem ''Month'' [] [Text ''3''],
                  Elem ''Day'' [] [Text '' 7 '']]],
            Elem ''Title'' [] [Text ''A journal'']],
         Elem ''ArticleTitle'' [] [Text '' A title '']]]"

definition ex_dated_article :: element where
  "ex_dated_article = Element [(''PubmedArticleSet'', [])] ''PubmedArticle'' [] ex_dated_children"

definition ex_dated_pubdate :: element where
  "ex_dated_pubdate =
     Element [(''JournalIssue'', []), (''Journal'', []), (''Article'', []), (''PubmedArticle'', []),
              (''PubmedArticleSet'', [])] ''PubDate'' []
       [Elem ''Year'' [] [Text ''2021''], Elem ''Month'' [] [Text ''3''],
        Elem ''Day'' [] [Text '' 7 '']]"


text \<open>A PubMed article whose \<open>PubDate\<close> has no \<open>Year\<close>, \<open>Month\<close> or \<open>Day\<close>, and one that has
  no \<open>PubDate\<close> at all; both have a \<open>PubStatus\<close> element with a \<open>Year\<close>.\<close>

definition ex_unyeared_article :: element where
  "ex_unyeared_article =
     Element [(''PubmedArticleSet'', [])] ''PubmedArticle'' []
       [Elem ''PMID'' [] [Text ''222''],
        Elem ''PubDate'' [] [Elem ''MedlineDate'' [] [Text ''2020 Spring'']],
        Elem ''PubStatus'' [] [Elem ''Year'' [] [Text '' 2020 '']]]"

definition ex_unyeared_pubdate :: element where
  "ex_unyeared_pubdate =
     Element [(''PubmedArticle'', []), (''PubmedArticleSet'', [])] ''PubDate'' []
       [Elem ''MedlineDate'' [] [Text ''2020 Spring'']]"

definition ex_undated_article :: element where
  "ex_undated_article =
     Element [(''PubmedArticleSet'', [])] ''PubmedArticle'' []
       [Elem ''PMID'' [] [Text ''333''],
        Elem ''PubStatus'' [] [Elem ''Year'' [] [Text ''2019'']]]"

text \<open>A PMC article with the identifier \<open>9999\<close> and no link to a PDF.\<close>

definition ex_pmc_9999 :: element where
  "ex_pmc_9999 =
     Element [(''pmc-articleset'', [])] ''article'' []
       [Elem ''front'' []
          [Elem ''article-meta'' []
             [Elem ''article-id'' [(''pub-id-type'', ''pmid'')] [Text ''4242''],
              Elem ''article-id'' [(''pub-id-type'', ''pmc'')] [Text ''9999''],
              Elem ''title-group'' [] [Elem ''article-title'' [] [Text ''On stubs'']]]],
        Elem ''body'' []
          [Elem ''p'' [] [Text ''See '', Elem ''ext-link'' [(''xlink:href'', ''https://example.org/'')]
                                           [Text ''here'']]]]"


text \<open>A PMC article with two \<open>self-uri\<close> elements: the first points to the HTML page, the
  second is a PDF with an absolute address.\<close>

definition ex_pmc_two_uris :: element where
  "ex_pmc_two_uris =
     Element [(''pmc-articleset'', [])] ''article'' []
       [Elem ''front'' []
          [Elem ''article-meta'' []
             [Elem ''article-id'' [(''pub-id-type'', ''pmc'')] [Text ''PMC55''],
              Elem ''self-uri'' [(''content-type'', ''text/html''),
                                 (''xlink:href'', ''https://example.org/a.html'')] [],
              Elem ''self-uri'' [(''content-type'', ''application/pdf''),
                                 (''xlink:href'', ''https://example.org/a.pdf'')] []]]]"

definition ex_pdf_self_uri :: element where
  "ex_pdf_self_uri =
     Element [(''article-meta'', []), (''front'', []), (''article'', []), (''pmc-articleset'', [])]
       ''self-uri''
       [(''content-type'', ''application/pdf''), (''xlink:href'', ''https://example.org/a.pdf'')] []"

text \<open>A PubMed answer with two articles that both refer to \<open>PMC77\<close>, and a PMC answer with
  one article \<open>PMC77\<close> that has authors, an abstract and a relative PDF \<open>self-uri\<close>, but no
  title, no journal title and no date.\<close>

definition ex_pubmed_doc :: node where
  "ex_pubmed_doc =
     Elem ''PubmedArticleSet'' []
       [Elem ''PubmedArticle'' []
          [Elem ''PMID'' [] [Text ''111''],
           Elem ''Article'' []
             [Elem ''Journal'' []
                [Elem ''PubDate'' [] [Elem ''Year'' [] [Text ''2021'']],
                 Elem ''Title'' [] [Text ''A journal'']],
              Elem ''ArticleTitle'' [] [Text '' A title ''],
              Elem ''AuthorList'' []
                [Elem ''Author'' []
                   [Elem ''LastName'' [] [Text ''Doe''], Elem ''ForeName'' [] [Text ''Jo'']]]],
           Elem ''ArticleIdList'' [] [Elem ''ArticleId'' [(''IdType'', ''pmc'')] [Text ''PMC77'']]],
        Elem ''PubmedArticle'' []
          [Elem ''PMID'' [] [Text ''112''],
           Elem ''Article'' [] [Elem ''ArticleTitle'' [] [Text ''A reprint'']],
           Elem ''ArticleIdList'' [] [Elem ''ArticleId'' [(''IdType'', ''pmc'')] [Text ''pmc77'']]]]"

definition ex_pmc_77_children :: "node list" where
  "ex_pmc_77_children =
     [Elem ''front'' []
        [Elem ''article-meta'' []
           [Elem ''article-id'' [(''pub-id-type'', ''pmc'')] [Text ''PMC77''],
            Elem ''contrib-group'' []
              [Elem ''contrib'' [(''contrib-type'', ''author'')]
                 [Elem ''name'' []
                    [Elem ''surname'' [] [Text ''Roe''], Elem ''given-names'' [] [Text ''Al'']]]],
            Elem ''self-uri'' [(''content-type'', ''application/pdf''), (''xlink:href'', ''main.pdf'')] [],
            Elem ''abstract'' [] [Elem ''sec'' [] [Elem ''p'' [] [Text ''Full text.'']]]]]]"

definition ex_pmc_doc :: node where
  "ex_pmc_doc = Elem ''pmc-articleset'' [] [Elem ''article'' [] ex_pmc_77_children]"

definition ex_pmc_77 :: element where
  "ex_pmc_77 = Element [(''pmc-articleset'', [])] ''article'' [] ex_pmc_77_children"


text \<open>A search request for the page starting at 200, and upstream answers: one that reports
  157 hits with both session tokens, and one that carries the tokens together with an
  embedded \<open>ERROR\<close> field.\<close>

definition ex_search_request :: request where
  "ex_search_request =
     \<lparr> req_method = ''GET'',
       req_query = [(''term'', QStr ''cancer''), (''db'', QStr ''pmc''),
                    (''retstart'', QStr ''200''), (''retmax'', QStr ''10'')],
       req_body = None \<rparr>"

definition ex_esearchresult :: esearchresult where
  "ex_esearchresult =
     \<lparr> ERROR = None, count = Some ''157'', webenv = Some ''MCID_1'', querykey = Some ''1'',
       idlist = Some [''123'', ''456''] \<rparr>"

definition ex_esearch :: "call \<Rightarrow> esearchresult option outcome" where
  "ex_esearch c = Fulfilled 200 (Some ex_esearchresult)"

definition ex_esearch_error :: "call \<Rightarrow> esearchresult option outcome" where
  "ex_esearch_error c = Fulfilled 200 (Some (ex_esearchresult \<lparr> ERROR := Some ''Backend failed'' \<rparr>))"

text \<open>The same request with a \<open>retstart\<close> beyond \<open>2 ^ 53\<close>, which \<open>parseInt\<close> rounds.\<close>

definition ex_far_request :: request where
  "ex_far_request =
     \<lparr> req_method = ''GET'',
       req_query = [(''term'', QStr ''cancer''), (''db'', QStr ''pmc''),
                    (''retstart'', QStr ''9007199254740993''), (''retmax'', QStr ''10'')],
       req_body = None \<rparr>"

text \<open>Search requests with \<open>retmax\<close> 0, \<open>-5\<close> and 10001, with a database that is not
  supported, and with a \<open>retstart\<close> that is not a number.\<close>

definition ex_bad_request :: "string \<Rightarrow> string \<Rightarrow> string \<Rightarrow> request" where
  "ex_bad_request d s m =
     \<lparr> req_method = ''GET'',
       req_query = [(''term'', QStr ''cancer''), (''db'', QStr d), (''retstart'', QStr s),
                    (''retmax'', QStr m)],
       req_body = None \<rparr>"

text \<open>An upstream that answers every call with status 429, and the requests sent against
  it.\<close>

definition ex_http_429 :: axios_error where
  "ex_http_429 = HttpError 429 ''Too Many Requests'' ''Request failed with status code 429''"

definition ex_rejecting_esearch :: "call \<Rightarrow> esearchresult option outcome" where
  "ex_rejecting_esearch c = Rejected ex_http_429"

definition ex_rejecting_efetch :: "call \<Rightarrow> xml_body outcome" where
  "ex_rejecting_efetch c = Rejected ex_http_429"

definition ex_papers_request :: request where
  "ex_papers_request =
     \<lparr> req_method = ''POST'', req_query = [],
       req_body = Some (JObj [(''ids'', JArr [JStr ''111'', JStr ''112'', JStr ''113'']),
                              (''db'', JStr ''pubmed'')]) \<rparr>"

definition ex_paper_request :: request where
  "ex_paper_request = \<lparr> req_method = ''GET'', req_query = [(''id'', QStr ''111'')], req_body = None \<rparr>"

text \<open>An upstream that answers the PubMed fetch and the PMC fetch with the example
  documents.\<close>

definition ex_efetch :: "call \<Rightarrow> xml_body outcome" where
  "ex_efetch c =
     (case c of
        EFetch db ids \<Rightarrow>
          if db = ''pubmed'' then Fulfilled 200 (WellFormed ex_pubmed_doc)
          else Fulfilled 200 (WellFormed ex_pmc_doc)
      | other \<Rightarrow> Rejected (NoResponse ''Network Error''))"


section \<open>Properties of the ID sanitizer\<close>

lemma upper_char_P: "upper_char c = CHR ''P'' \<longleftrightarrow> c = CHR ''P'' \<or> c = CHR ''p''"
  by (simp add: upper_char_def split: if_splits)

lemma upper_char_M: "upper_char c = CHR ''M'' \<longleftrightarrow> c = CHR ''M'' \<or> c = CHR ''m''"
  by (simp add: upper_char_def split: if_splits)

lemma upper_char_C: "upper_char c = CHR ''C'' \<longleftrightarrow> c = CHR ''C'' \<or> c = CHR ''c''"
  by (simp add: upper_char_def split: if_splits)

lemma upper_char_literals:
  "upper_char CHR ''P'' = CHR ''P''" "upper_char CHR ''M'' = CHR ''M''"
  "upper_char CHR ''C'' = CHR ''C''" "upper_char CHR ''p'' = CHR ''P''"
  "upper_char CHR ''m'' = CHR ''M''" "upper_char CHR ''c'' = CHR ''C''"
  by (simp_all add: upper_char_def)

text \<open>The regular expression matches exactly the strings that begin with one of \<open>P p\<close>, one
  of \<open>M m\<close> and one of \<open>C c\<close>.\<close>

lemma has_pmc_prefix_iff:
  "has_pmc_prefix s =
     (\<exists>a b c r. s = a # b # c # r \<and> a \<in> {CHR ''P'', CHR ''p''} \<and> b \<in> {CHR ''M'', CHR ''m''}
        \<and> c \<in> {CHR ''C'', CHR ''c''})"
proof (cases s)
  case Nil
  then show ?thesis by (simp add: has_pmc_prefix_def matches_ci_at_start_def)
next
  case s: (Cons a s1)
  show ?thesis
  proof (cases s1)
    case Nil
    with s show ?thesis by (simp add: has_pmc_prefix_def matches_ci_at_start_def)
  next
    case s1: (Cons b s2)
    show ?thesis
    proof (cases s2)
      case Nil
      with s s1 show ?thesis by (simp add: has_pmc_prefix_def matches_ci_at_start_def)
    next
      case (Cons c r)
      with s s1 show ?thesis
        by (simp add: has_pmc_prefix_def matches_ci_at_start_def upper_char_literals
              upper_char_P upper_char_M upper_char_C)
    qed
  qed
qed

lemma has_pmc_prefix_length: "has_pmc_prefix t \<Longrightarrow> 3 \<le> length t"
  by (auto simp: has_pmc_prefix_iff)

lemma cleanPmcIdStr_shorter: "has_pmc_prefix t \<Longrightarrow> length (cleanPmcIdStr t) < length t"
  using has_pmc_prefix_length [of t] by (simp add: cleanPmcIdStr_def)

lemma cleanPmcIdStr_twice_iff:
  "cleanPmcIdStr (cleanPmcIdStr s) = cleanPmcIdStr s \<longleftrightarrow> \<not> has_pmc_prefix (cleanPmcIdStr s)"
proof (cases "has_pmc_prefix (cleanPmcIdStr s)")
  case True
  from cleanPmcIdStr_shorter [OF True]
  have "cleanPmcIdStr (cleanPmcIdStr s) \<noteq> cleanPmcIdStr s"
    by auto
  with True show ?thesis by simp
next
  case False
  then show ?thesis by (simp add: cleanPmcIdStr_def [of "cleanPmcIdStr s"])
qed

lemma cleanPmcIdStr_prefix_iff:
  "has_pmc_prefix (cleanPmcIdStr s) \<longleftrightarrow> has_pmc_prefix s \<and> has_pmc_prefix (drop 3 s)"
  by (simp add: cleanPmcIdStr_def)

text \<open>
  Claim C2, as amended. The sanitizer removes one leading \<open>PMC\<close> in any casing from a
  string and no more, leaves a string without that prefix as it is, and returns every value
  that is not a string unchanged. Its result is free of the prefix, and sanitizing twice
  equals sanitizing once, exactly when the input does not begin with two such prefixes in
  a row.
\<close>

theorem cleanPmcId_strips_one_prefix:
  "(a \<in> {CHR ''P'', CHR ''p''} \<and> b \<in> {CHR ''M'', CHR ''m''} \<and> c \<in> {CHR ''C'', CHR ''c''}
      \<longrightarrow> cleanPmcId (JStr (a # b # c # r)) = JStr r)
   \<and> (\<not> (\<exists>a b c r. s = a # b # c # r \<and> a \<in> {CHR ''P'', CHR ''p''}
           \<and> b \<in> {CHR ''M'', CHR ''m''} \<and> c \<in> {CHR ''C'', CHR ''c''})
      \<longrightarrow> cleanPmcId (JStr s) = JStr s)
   \<and> (\<not> is_string v \<longrightarrow> cleanPmcId v = v)
   \<and> (\<not> has_pmc_prefix (cleanPmcIdStr s) \<longleftrightarrow> \<not> (has_pmc_prefix s \<and> has_pmc_prefix (drop 3 s)))
   \<and> (cleanPmcId (cleanPmcId (JStr s)) = cleanPmcId (JStr s)
        \<longleftrightarrow> \<not> (has_pmc_prefix s \<and> has_pmc_prefix (drop 3 s)))"
proof -
  have strip: "a \<in> {CHR ''P'', CHR ''p''} \<and> b \<in> {CHR ''M'', CHR ''m''} \<and> c \<in> {CHR ''C'', CHR ''c''}
      \<longrightarrow> cleanPmcId (JStr (a # b # c # r)) = JStr r"
  proof
    assume h: "a \<in> {CHR ''P'', CHR ''p''} \<and> b \<in> {CHR ''M'', CHR ''m''} \<and> c \<in> {CHR ''C'', CHR ''c''}"
    then have "has_pmc_prefix (a # b # c # r)"
      unfolding has_pmc_prefix_iff by blast
    then show "cleanPmcId (JStr (a # b # c # r)) = JStr r"
      by (simp add: cleanPmcIdStr_def)
  qed
  have keep: "\<not> (\<exists>a b c r. s = a # b # c # r \<and> a \<in> {CHR ''P'', CHR ''p''}
           \<and> b \<in> {CHR ''M'', CHR ''m''} \<and> c \<in> {CHR ''C'', CHR ''c''})
      \<longrightarrow> cleanPmcId (JStr s) = JStr s"
    unfolding has_pmc_prefix_iff [symmetric] by (simp add: cleanPmcIdStr_def)
  have other: "\<not> is_string v \<longrightarrow> cleanPmcId v = v"
    by (cases v) simp_all
  have idem: "cleanPmcId (cleanPmcId (JStr s)) = cleanPmcId (JStr s)
        \<longleftrightarrow> \<not> (has_pmc_prefix s \<and> has_pmc_prefix (drop 3 s))"
    by (simp add: cleanPmcIdStr_twice_iff cleanPmcIdStr_prefix_iff)
  from strip keep other idem show ?thesis
    by (simp only: cleanPmcIdStr_prefix_iff simp_thms)
qed

text \<open>The theorem at \<open>pmC9999\<close>, \<open>9999\<close> and the number \<open>9999\<close>.\<close>

theorem cleanPmcId_strips_one_prefix_witness:
  "cleanPmcId (JStr ''pmC9999'') = JStr ''9999''
   \<and> cleanPmcId (JStr ''9999'') = JStr ''9999''
   \<and> cleanPmcId (JNum 9999) = JNum 9999
   \<and> \<not> has_pmc_prefix (cleanPmcIdStr ''9999'')
   \<and> cleanPmcId (cleanPmcId (JStr ''9999'')) = cleanPmcId (JStr ''9999'')"
proof -
  have h1: "CHR ''p'' \<in> {CHR ''P'', CHR ''p''} \<and> CHR ''m'' \<in> {CHR ''M'', CHR ''m''}
            \<and> CHR ''C'' \<in> {CHR ''C'', CHR ''c''}"
    by simp
  have h2: "\<not> (\<exists>a b c r. ''9999'' = a # b # c # r \<and> a \<in> {CHR ''P'', CHR ''p''}
           \<and> b \<in> {CHR ''M'', CHR ''m''} \<and> c \<in> {CHR ''C'', CHR ''c''})"
    by simp
  have h3: "\<not> is_string (JNum 9999)"
    by simp
  have h4: "\<not> (has_pmc_prefix ''9999'' \<and> has_pmc_prefix (drop 3 ''9999''))"
    by (simp add: has_pmc_prefix_iff)
  from cleanPmcId_strips_one_prefix
         [of "CHR ''p''" "CHR ''m''" "CHR ''C''" "''9999''" "''9999''" "JNum 9999"] h1 h2 h3 h4
  show ?thesis by blast
qed

text \<open>Claim C2 as first stated fails at \<open>PMCPMC123\<close>: one pass leaves \<open>PMC123\<close>, which
  still carries the prefix, and a second pass changes it again.\<close>

theorem cleanPmcId_idempotence_counterexample:
  "has_pmc_prefix (cleanPmcIdStr ''PMCPMC123'')
   \<and> cleanPmcId (cleanPmcId (JStr ''PMCPMC123'')) \<noteq> cleanPmcId (JStr ''PMCPMC123'')"
  by (simp add: cleanPmcIdStr_def has_pmc_prefix_iff)

section \<open>Properties of the PubMed publication date\<close>

lemma pubdate_pubmed_paper: "pubdate (pubmed_paper art) = pubmed_pubDate art"
  by (simp add: pubmed_paper_def Let_def)

lemma padStart_length: "n \<le> length (padStart n c s)"
  by (simp add: padStart_def)

lemma padStart_two_one: "length s = 1 \<Longrightarrow> padStart 2 c s = c # s"
  by (simp add: padStart_def numeral_2_eq_2)

lemma padStart_unchanged: "n \<le> length s \<Longrightarrow> padStart n c s = s"
  by (simp add: padStart_def)

text \<open>
  Claim C4. When the first \<open>PubDate\<close> element of a PubMed article has a \<open>Year\<close>, a \<open>Month\<close>
  and a \<open>Day\<close> whose trimmed texts \<open>y\<close>, \<open>m\<close>, \<open>d\<close> are not empty, the record's \<open>pubdate\<close>
  is \<open>y-m'-d'\<close>, where \<open>m'\<close> and \<open>d'\<close> are \<open>m\<close> and \<open>d\<close> left-padded with \<open>0\<close> to width 2:
  the padded text has at least two characters whatever the length of the source text, a
  one-character text gets one \<open>0\<close> in front, and a longer text is left as it is.
\<close>

theorem pubmed_pubdate_three_part:
  assumes pd: "querySelector art (Sel (Tag ''PubDate'')) = Some pd"
    and y: "y = trimmed_text (querySelector pd (Sel (Tag ''Year'')))"
    and m: "m = trimmed_text (querySelector pd (Sel (Tag ''Month'')))"
    and d: "d = trimmed_text (querySelector pd (Sel (Tag ''Day'')))"
    and ne: "y \<noteq> []" "m \<noteq> []" "d \<noteq> []"
  shows "pubdate (pubmed_paper art) =
           y @ ''-'' @ padStart 2 CHR ''0'' m @ ''-'' @ padStart 2 CHR ''0'' d
         \<and> 2 \<le> length (padStart 2 CHR ''0'' m) \<and> 2 \<le> length (padStart 2 CHR ''0'' d)
         \<and> (length m = 1 \<longrightarrow> padStart 2 CHR ''0'' m = CHR ''0'' # m)
         \<and> (length d = 1 \<longrightarrow> padStart 2 CHR ''0'' d = CHR ''0'' # d)
         \<and> (2 \<le> length m \<longrightarrow> padStart 2 CHR ''0'' m = m)
         \<and> (2 \<le> length d \<longrightarrow> padStart 2 CHR ''0'' d = d)"
proof -
  have "pubmed_pubDate art =
          y @ ''-'' @ padStart 2 CHR ''0'' m @ ''-'' @ padStart 2 CHR ''0'' d"
    using ne by (simp add: pubmed_pubDate_def pd Let_def y [symmetric] m [symmetric] d [symmetric])
  then show ?thesis
    by (simp add: pubdate_pubmed_paper padStart_length padStart_two_one padStart_unchanged)
qed

text \<open>The theorem at an article dated year 2021, month 3, day 7: the date is
  \<open>2021-03-07\<close>.\<close>

theorem pubmed_pubdate_three_part_witness:
  "pubdate (pubmed_paper ex_dated_article) = ''2021-03-07''"
proof -
  have pd: "querySelector ex_dated_article (Sel (Tag ''PubDate'')) = Some ex_dated_pubdate"
    by code_simp
  have y: "''2021'' = trimmed_text (querySelector ex_dated_pubdate (Sel (Tag ''Year'')))"
    by code_simp
  have m: "''3'' = trimmed_text (querySelector ex_dated_pubdate (Sel (Tag ''Month'')))"
    by code_simp
  have d: "''7'' = trimmed_text (querySelector ex_dated_pubdate (Sel (Tag ''Day'')))"
    by code_simp
  have p: "padStart 2 CHR ''0'' ''3'' = ''03''" "padStart 2 CHR ''0'' ''7'' = ''07''"
    by (simp_all add: padStart_def)
  from pubmed_pubdate_three_part [OF pd y m d] show ?thesis
    by (simp add: p)
qed

section \<open>Properties of the PubMed date fallback\<close>

text \<open>
  Claim C5, as amended. When a PubMed article has a \<open>PubDate\<close> element under which none of
  \<open>Year\<close>, \<open>Month\<close> and \<open>Day\<close> yields a value, the record's \<open>pubdate\<close> is the trimmed text
  of the first \<open>PubStatus > Year\<close> element, and the empty string when there is none. When
  the article has no \<open>PubDate\<close> element at all, \<open>pubdate\<close> is the empty string, whether or
  not a \<open>PubStatus > Year\<close> element exists: the fallback stands inside the branch for an
  existing \<open>PubDate\<close>.
\<close>

theorem pubmed_pubdate_fallback:
  "(querySelector art (Sel (Tag ''PubDate'')) = Some pd
      \<and> trimmed_text (querySelector pd (Sel (Tag ''Year''))) = []
      \<and> trimmed_text (querySelector pd (Sel (Tag ''Month''))) = []
      \<and> trimmed_text (querySelector pd (Sel (Tag ''Day''))) = []
    \<longrightarrow> pubdate (pubmed_paper art) =
          (case querySelector art (Child (Tag ''PubStatus'') (Tag ''Year'')) of
             None \<Rightarrow> []
           | Some e \<Rightarrow> trim (textContent e)))
   \<and> (querySelector art (Sel (Tag ''PubDate'')) = None \<longrightarrow> pubdate (pubmed_paper art) = [])"
proof -
  have present: "pubmed_pubDate art =
          (case querySelector art (Child (Tag ''PubStatus'') (Tag ''Year'')) of
             None \<Rightarrow> []
           | Some e \<Rightarrow> trim (textContent e))"
    if "querySelector art (Sel (Tag ''PubDate'')) = Some pd"
      and "trimmed_text (querySelector pd (Sel (Tag ''Year''))) = []"
    using that by (simp add: pubmed_pubDate_def Let_def split: option.splits)
  have absent: "pubmed_pubDate art = []" if "querySelector art (Sel (Tag ''PubDate'')) = None"
    using that by (simp add: pubmed_pubDate_def)
  from present absent show ?thesis
    by (simp add: pubdate_pubmed_paper)
qed

text \<open>The theorem at an article whose \<open>PubDate\<close> holds no year (the fallback gives \<open>2020\<close>)
  and at an article without \<open>PubDate\<close>.\<close>

theorem pubmed_pubdate_fallback_witness:
  "pubdate (pubmed_paper ex_unyeared_article) = ''2020''
   \<and> pubdate (pubmed_paper ex_undated_article) = []"
proof -
  have h1: "querySelector ex_unyeared_article (Sel (Tag ''PubDate'')) = Some ex_unyeared_pubdate
      \<and> trimmed_text (querySelector ex_unyeared_pubdate (Sel (Tag ''Year''))) = []
      \<and> trimmed_text (querySelector ex_unyeared_pubdate (Sel (Tag ''Month''))) = []
      \<and> trimmed_text (querySelector ex_unyeared_pubdate (Sel (Tag ''Day''))) = []"
    by code_simp
  have v1: "(case querySelector ex_unyeared_article (Child (Tag ''PubStatus'') (Tag ''Year'')) of
             None \<Rightarrow> []
           | Some e \<Rightarrow> trim (textContent e)) = ''2020''"
    by code_simp
  have h2: "querySelector ex_undated_article (Sel (Tag ''PubDate'')) = None"
    by code_simp
  from pubmed_pubdate_fallback [of ex_unyeared_article ex_unyeared_pubdate] h1 v1
  have a: "pubdate (pubmed_paper ex_unyeared_article) = ''2020''"
    by simp
  from pubmed_pubdate_fallback [of ex_undated_article] h2
  have b: "pubdate (pubmed_paper ex_undated_article) = []"
    by simp
  from a b show ?thesis by simp
qed

text \<open>Claim C5 as first stated fails at an article without a \<open>PubDate\<close> element: nothing
  yields a value under \<open>PubDate\<close>, a \<open>PubStatus > Year\<close> element with the text \<open>2019\<close> is
  there, and yet \<open>pubdate\<close> is empty.\<close>

theorem pubmed_pubdate_fallback_counterexample:
  "querySelector ex_undated_article (Sel (Tag ''PubDate'')) = None
   \<and> trimmed_text (querySelector ex_undated_article (Child (Tag ''PubStatus'') (Tag ''Year''))) = ''2019''
   \<and> pubdate (pubmed_paper ex_undated_article) = []"
  by code_simp

section \<open>Properties of the PMC PDF link\<close>

lemma ext_link_pdf_first:
  "ext_link_pdf [] links =
     (case filter (\<lambda>href. endsWith (toLowerCase href) ''.pdf'')
             (List.map_filter (\<lambda>link. getAttribute link ''xlink:href'') links) of
        [] \<Rightarrow> []
      | href # _ \<Rightarrow> href)"
proof (induction links)
  case Nil
  show ?case by (simp add: List.map_filter_simps)
next
  case (Cons link links)
  have ne: "endsWith (toLowerCase h) ''.pdf'' \<Longrightarrow> h \<noteq> []" for h
    by (auto simp: endsWith_def toLowerCase_def suffix_def)
  show ?case
    using Cons.IH ne by (auto simp: List.map_filter_simps split: option.splits)
qed

lemma ends_with_pdf_nonempty: "endsWith (toLowerCase h) ''.pdf'' \<Longrightarrow> h \<noteq> []"
  by (auto simp: endsWith_def toLowerCase_def suffix_def)

lemma pdf_template_nonempty: "pdf_template i \<noteq> []"
  by (simp add: pdf_template_def)

lemma self_uri_pdf_spec:
  "self_uri_pdf article i =
     (case spec_self_uri_pdf article of
        None \<Rightarrow> []
      | Some href \<Rightarrow> if startsWith href ''http'' then href else pdf_template i)"
  by (auto simp: self_uri_pdf_def spec_self_uri_pdf_def str_includes_def toLowerCase_def
        split: option.splits)

lemma spec_self_uri_pdf_nonempty: "spec_self_uri_pdf article = Some href \<Longrightarrow> href \<noteq> []"
  by (auto simp: spec_self_uri_pdf_def split: option.splits if_splits)

lemma pmc_pdfUrl_spec: "pmc_pdfUrl article (pmc_id article) = spec_pdfUrl article"
proof (cases "spec_self_uri_pdf article")
  case None
  show ?thesis
  proof (cases "spec_ext_link_pdfs article")
    case Nil
    with None show ?thesis
      by (simp add: pmc_pdfUrl_def spec_pdfUrl_def self_uri_pdf_spec ext_link_pdf_first
            spec_ext_link_pdfs_def [symmetric])
  next
    case (Cons h hs)
    then have "h \<in> set (spec_ext_link_pdfs article)" by simp
    then have "h \<noteq> []"
      by (auto simp: spec_ext_link_pdfs_def dest: ends_with_pdf_nonempty)
    with None Cons show ?thesis
      by (simp add: pmc_pdfUrl_def spec_pdfUrl_def self_uri_pdf_spec ext_link_pdf_first
            spec_ext_link_pdfs_def [symmetric])
  qed
next
  case (Some href)
  with spec_self_uri_pdf_nonempty [OF Some] show ?thesis
    by (simp add: pmc_pdfUrl_def spec_pdfUrl_def self_uri_pdf_spec pdf_template_nonempty)
qed

lemma pdfUrl_pmc_paper: "pdfUrl (pmc_paper article) = pmc_pdfUrl article (pmc_id article)"
  by (simp add: pmc_paper_def Let_def)

lemma pmcid_pmc_paper: "pmcid (pmc_paper article) = pmc_id article"
  by (simp add: pmc_paper_def Let_def)

text \<open>
  Claim C3, as amended. For every PMC article element the \<open>pdfUrl\<close> of its record is the one
  the fallback chain selects when step (1) looks at the first \<open>self-uri\<close> element of the
  article only (\<open>spec_pdfUrl\<close>). In particular an article whose
  \<open>article-id[pub-id-type='pmc']\<close> has the text \<open>9999\<close> and which has no PDF link (neither a
  PDF \<open>self-uri\<close> nor an \<open>ext-link\<close> ending in \<open>.pdf\<close>) gets \<open>pmcid\<close> \<open>9999\<close> and a \<open>pdfUrl\<close>
  that ends in \<open>PMC9999/pdf/\<close>.
\<close>

theorem pmc_pdfUrl_fallback_chain:
  "pdfUrl (pmc_paper article) = spec_pdfUrl article
   \<and> (text_or_empty (querySelector article (Sel (TagAttr ''article-id'' ''pub-id-type'' ''pmc'')))
        = ''9999''
      \<and> spec_self_uri_pdf article = None \<and> spec_ext_link_pdfs article = []
      \<longrightarrow> pmcid (pmc_paper article) = ''9999''
          \<and> endsWith (pdfUrl (pmc_paper article)) ''PMC9999/pdf/'')"
proof -
  have c: "cleanPmcIdStr ''9999'' = ''9999''"
    by (simp add: cleanPmcIdStr_def has_pmc_prefix_iff)
  have e: "endsWith (pdf_template ''9999'') ''PMC9999/pdf/''"
    by (simp add: pdf_template_def endsWith_def suffix_def)
  have chain: "pdfUrl (pmc_paper article) = spec_pdfUrl article"
    by (simp add: pdfUrl_pmc_paper pmc_pdfUrl_spec)
  have stub: "pmcid (pmc_paper article) = ''9999''
          \<and> endsWith (pdfUrl (pmc_paper article)) ''PMC9999/pdf/''"
    if "text_or_empty (querySelector article (Sel (TagAttr ''article-id'' ''pub-id-type'' ''pmc'')))
          = ''9999''"
      and "spec_self_uri_pdf article = None" and "spec_ext_link_pdfs article = []"
  proof -
    from that(1) have i: "pmc_id article = ''9999''"
      by (simp add: pmc_id_def c)
    from that(2,3) have "spec_pdfUrl article = pdf_template ''9999''"
      by (simp add: spec_pdfUrl_def i)
    with i e show ?thesis
      by (simp add: chain pmcid_pmc_paper)
  qed
  from chain stub show ?thesis by blast
qed

text \<open>The theorem at a PMC article with the identifier \<open>9999\<close> and no PDF link.\<close>

theorem pmc_pdfUrl_fallback_chain_witness:
  "pmcid (pmc_paper ex_pmc_9999) = ''9999''
   \<and> pdfUrl (pmc_paper ex_pmc_9999) = ''https://www.ncbi.nlm.nih.gov/pmc/articles/PMC9999/pdf/''
   \<and> endsWith (pdfUrl (pmc_paper ex_pmc_9999)) ''PMC9999/pdf/''"
proof -
  have h: "text_or_empty (querySelector ex_pmc_9999 (Sel (TagAttr ''article-id'' ''pub-id-type'' ''pmc'')))
        = ''9999''
      \<and> spec_self_uri_pdf ex_pmc_9999 = None \<and> spec_ext_link_pdfs ex_pmc_9999 = []"
    by code_simp
  have v: "spec_pdfUrl ex_pmc_9999 = ''https://www.ncbi.nlm.nih.gov/pmc/articles/PMC9999/pdf/''"
    by code_simp
  have e: "endsWith ''https://www.ncbi.nlm.nih.gov/pmc/articles/PMC9999/pdf/'' ''PMC9999/pdf/''"
    by code_simp
  from pmc_pdfUrl_fallback_chain [of ex_pmc_9999] h v e show ?thesis
    by simp
qed

text \<open>Claim C3 as first stated fails at an article with two \<open>self-uri\<close> elements of which
  only the second is a PDF: a \<open>self-uri\<close> element with a \<open>content-type\<close> containing \<open>pdf\<close> and
  an absolute \<open>xlink:href\<close> is there, yet the record gets the template URL, because only the
  first \<open>self-uri\<close> element is looked at.\<close>

theorem pmc_pdfUrl_fallback_chain_counterexample:
  "ex_pdf_self_uri \<in> set (querySelectorAll ex_pmc_two_uris (Sel (Tag ''self-uri'')))
   \<and> getAttribute ex_pdf_self_uri ''content-type'' = Some ''application/pdf''
   \<and> str_includes ''application/pdf'' ''pdf''
   \<and> getAttribute ex_pdf_self_uri ''xlink:href'' = Some ''https://example.org/a.pdf''
   \<and> startsWith ''https://example.org/a.pdf'' ''http''
   \<and> pdfUrl (pmc_paper ex_pmc_two_uris) = ''https://www.ncbi.nlm.nih.gov/pmc/articles/PMC55/pdf/''"
  by code_simp


section \<open>Properties of the enrichment pass\<close>

lemma findIndex_Some:
  "findIndex P xs = Some i \<longleftrightarrow> i < length xs \<and> P (xs ! i) \<and> (\<forall>k<i. \<not> P (xs ! k))"
proof (induction xs arbitrary: i)
  case Nil
  show ?case by simp
next
  case (Cons x xs)
  show ?case
  proof (cases "P x")
    case True
    then show ?thesis by (cases i) auto
  next
    case False
    show ?thesis
    proof (cases i)
      case 0
      with False show ?thesis by (simp split: option.splits)
    next
      case (Suc j)
      have "(\<forall>k<Suc j. \<not> P ((x # xs) ! k)) \<longleftrightarrow> (\<forall>k<j. \<not> P (xs ! k))"
        using False by (auto simp: less_Suc_eq_0_disj)
      with False Suc Cons.IH [of j] show ?thesis
        by (auto split: option.splits)
    qed
  qed
qed

lemma findIndex_None: "findIndex P xs = None \<longleftrightarrow> (\<forall>x\<in>set xs. \<not> P x)"
  by (induction xs) (auto split: option.splits)

lemma findIndex_map: "findIndex (\<lambda>x. f x = k) xs = findIndex (\<lambda>y. y = k) (map f xs)"
  by (induction xs) auto

lemma overlay_pmcid: "pmcid (overlay p article i) = pmcid p"
  by (simp add: overlay_def Let_def)

lemma overlay_uid: "uid (overlay p article i) = uid p"
  by (simp add: overlay_def Let_def)

lemma enrich_step_length: "length (enrich_step papers article) = length papers"
  by (simp add: enrich_step_def Let_def split: option.splits)

lemma enrich_step_pmcids: "map pmcid (enrich_step papers article) = map pmcid papers"
  by (auto simp: enrich_step_def Let_def map_update overlay_pmcid findIndex_Some
        split: option.splits intro!: nth_equalityI simp: nth_list_update)

lemma enrich_step_nth:
  "j < length papers \<Longrightarrow>
   enrich_step papers article ! j =
     (if findIndex (\<lambda>p. pmcid p = pmc_id article) papers = Some j
      then overlay (papers ! j) article (pmc_id article) else papers ! j)"
  by (auto simp: enrich_step_def Let_def nth_list_update split: option.splits)

lemma findIndex_enrich_step:
  "findIndex (\<lambda>p. pmcid p = k) (enrich_step papers article) = findIndex (\<lambda>p. pmcid p = k) papers"
  by (simp add: findIndex_map [of pmcid] enrich_step_pmcids)

lemma enrich_length: "length (enrich papers pmcArticles) = length papers"
  unfolding enrich_def
  by (induction pmcArticles arbitrary: papers) (simp_all add: enrich_step_length)

lemma enrich_pmcids: "map pmcid (enrich papers pmcArticles) = map pmcid papers"
  unfolding enrich_def
  by (induction pmcArticles arbitrary: papers) (simp_all add: enrich_step_pmcids)

lemma enrich_Cons: "enrich papers (a # as) = enrich (enrich_step papers a) as"
  by (simp add: enrich_def)

lemma enrich_append: "enrich papers (as @ bs) = enrich (enrich papers as) bs"
  by (simp add: enrich_def)

lemma enrich_untouched:
  "j < length papers \<Longrightarrow>
   \<forall>a\<in>set pmcArticles. findIndex (\<lambda>p. pmcid p = pmc_id a) papers \<noteq> Some j \<Longrightarrow>
   enrich papers pmcArticles ! j = papers ! j"
proof (induction pmcArticles arbitrary: papers)
  case Nil
  show ?case by (simp add: enrich_def)
next
  case (Cons a as)
  have "enrich (enrich_step papers a) as ! j = enrich_step papers a ! j"
    using Cons.prems by (intro Cons.IH) (simp_all add: enrich_step_length findIndex_enrich_step)
  also have "\<dots> = papers ! j"
    using Cons.prems by (simp add: enrich_step_nth)
  finally show ?case by (simp add: enrich_Cons)
qed

lemma later_duplicate_not_found:
  assumes "i < j" "pmcid (papers ! i) = pmcid (papers ! j)"
  shows "findIndex (\<lambda>p. pmcid p = k) papers \<noteq> Some j"
proof
  assume "findIndex (\<lambda>p. pmcid p = k) papers = Some j"
  then have "pmcid (papers ! j) = k" "\<forall>m<j. pmcid (papers ! m) \<noteq> k"
    by (simp_all add: findIndex_Some)
  with assms show False by auto
qed

lemma enrich_split:
  assumes "findIndex (\<lambda>p. pmcid p = pmc_id article) papers = Some i"
  shows "enrich papers (before @ article # after) =
           enrich ((enrich papers before)
                     [i := overlay (enrich papers before ! i) article (pmc_id article)]) after"
proof -
  have "findIndex (\<lambda>p. pmcid p = pmc_id article) (enrich papers before) = Some i"
    using assms by (simp add: findIndex_map [of pmcid] enrich_pmcids)
  then have "enrich_step (enrich papers before) article =
               (enrich papers before)
                 [i := overlay (enrich papers before ! i) article (pmc_id article)]"
    by (simp add: enrich_step_def)
  then show ?thesis
    by (simp add: enrich_append enrich_Cons)
qed

text \<open>
  Claim C10. Each PMC article that the enrichment pass goes through is joined to the first
  record of the batch whose \<open>pmcid\<close> equals the article's sanitized identifier: when the
  pass reaches the article, that record, and no other, is replaced by its overlay, which
  carries the authors and the PDF link of the article and keeps \<open>pmcid\<close> and \<open>uid\<close>; the
  same holds for one step of the loop on any batch, and nothing changes in a step when no
  record has the identifier. A record that shares its \<open>pmcid\<close> with an earlier record of the
  batch is the same after the whole pass as before it, whatever articles PMC returned; the
  pass keeps the number of records.
\<close>

theorem enrichment_joins_first_record:
  "(i < length papers \<and> pmcid (papers ! i) = pmc_id article
      \<and> (\<forall>k<i. pmcid (papers ! k) \<noteq> pmc_id article)
    \<longrightarrow> enrich_step papers article = papers[i := overlay (papers ! i) article (pmc_id article)])
   \<and> ((\<forall>p\<in>set papers. pmcid p \<noteq> pmc_id article) \<longrightarrow> enrich_step papers article = papers)
   \<and> (i < j \<and> j < length papers \<and> pmcid (papers ! i) = pmcid (papers ! j)
    \<longrightarrow> enrich papers pmcArticles ! j = papers ! j)
   \<and> length (enrich papers pmcArticles) = length papers
   \<and> (i < length papers \<and> pmcid (papers ! i) = pmc_id article
      \<and> (\<forall>k<i. pmcid (papers ! k) \<noteq> pmc_id article)
    \<longrightarrow> enrich papers (before @ article # after) =
          enrich ((enrich papers before)
                    [i := overlay (enrich papers before ! i) article (pmc_id article)]) after)
   \<and> authorsArray (overlay p article pmcIdInXml) = pmc_authors article
   \<and> authors (overlay p article pmcIdInXml) = join '', '' (pmc_authors article)
   \<and> pdfUrl (overlay p article pmcIdInXml) = pmc_pdfUrl article pmcIdInXml
   \<and> pmcid (overlay p article pmcIdInXml) = pmcid p
   \<and> uid (overlay p article pmcIdInXml) = uid p"
proof -
  have found: "findIndex (\<lambda>p. pmcid p = pmc_id article) papers = Some i"
    if "i < length papers \<and> pmcid (papers ! i) = pmc_id article
      \<and> (\<forall>k<i. pmcid (papers ! k) \<noteq> pmc_id article)"
    using that by (simp add: findIndex_Some)
  have first: "enrich_step papers article = papers[i := overlay (papers ! i) article (pmc_id article)]"
    if "i < length papers \<and> pmcid (papers ! i) = pmc_id article
      \<and> (\<forall>k<i. pmcid (papers ! k) \<noteq> pmc_id article)"
    using found [OF that] by (simp add: enrich_step_def)
  have none: "enrich_step papers article = papers" if "\<forall>p\<in>set papers. pmcid p \<noteq> pmc_id article"
  proof -
    from that have "findIndex (\<lambda>p. pmcid p = pmc_id article) papers = None"
      by (simp add: findIndex_None)
    then show ?thesis by (simp add: enrich_step_def)
  qed
  have later: "enrich papers pmcArticles ! j = papers ! j"
    if "i < j \<and> j < length papers \<and> pmcid (papers ! i) = pmcid (papers ! j)"
    using that by (intro enrich_untouched) (auto simp: later_duplicate_not_found)
  have pass: "enrich papers (before @ article # after) =
          enrich ((enrich papers before)
                    [i := overlay (enrich papers before ! i) article (pmc_id article)]) after"
    if "i < length papers \<and> pmcid (papers ! i) = pmc_id article
      \<and> (\<forall>k<i. pmcid (papers ! k) \<noteq> pmc_id article)"
    using found [OF that] by (rule enrich_split)
  have fields: "authorsArray (overlay p article pmcIdInXml) = pmc_authors article"
    "authors (overlay p article pmcIdInXml) = join '', '' (pmc_authors article)"
    "pdfUrl (overlay p article pmcIdInXml) = pmc_pdfUrl article pmcIdInXml"
    by (simp_all add: overlay_def Let_def)
  from first none later pass show ?thesis
    by (simp add: enrich_length fields overlay_pmcid overlay_uid)
qed

text \<open>The theorem at the two records of the example answer, which share the identifier \<open>77\<close>,
  with the PMC article \<open>77\<close> and the PMC article \<open>9999\<close>: the pass over the article \<open>77\<close>
  replaces the authors \<open>Jo Doe\<close> of the first record by \<open>Al Roe\<close> and leaves the second
  record as it was; the article \<open>9999\<close> is joined to no record.\<close>

theorem enrichment_joins_first_record_witness:
  "enrich_step (pubmed_papers ex_pubmed_doc) ex_pmc_77 =
     (pubmed_papers ex_pubmed_doc)
       [0 := overlay (pubmed_papers ex_pubmed_doc ! 0) ex_pmc_77 (pmc_id ex_pmc_77)]
   \<and> enrich_step (pubmed_papers ex_pubmed_doc) ex_pmc_9999 = pubmed_papers ex_pubmed_doc
   \<and> enrich (pubmed_papers ex_pubmed_doc) [ex_pmc_77] ! 1 = pubmed_papers ex_pubmed_doc ! 1
   \<and> length (enrich (pubmed_papers ex_pubmed_doc) [ex_pmc_77]) = length (pubmed_papers ex_pubmed_doc)
   \<and> authors (pubmed_papers ex_pubmed_doc ! 0) = ''Jo Doe''
   \<and> authors (enrich (pubmed_papers ex_pubmed_doc) [ex_pmc_77] ! 0) = ''Al Roe''
   \<and> authorsArray (enrich (pubmed_papers ex_pubmed_doc) [ex_pmc_77] ! 0) = [''Al Roe'']
   \<and> uid (enrich (pubmed_papers ex_pubmed_doc) [ex_pmc_77] ! 0) = ''111''"
proof -
  let ?ps = "pubmed_papers ex_pubmed_doc"
  have h1: "0 < length ?ps \<and> pmcid (?ps ! 0) = pmc_id ex_pmc_77
      \<and> (\<forall>k<0. pmcid (?ps ! k) \<noteq> pmc_id ex_pmc_77)"
  proof -
    have "0 < length ?ps \<and> pmcid (?ps ! 0) = pmc_id ex_pmc_77"
      by code_simp
    then show ?thesis by simp
  qed
  have h2: "\<forall>p\<in>set ?ps. pmcid p \<noteq> pmc_id ex_pmc_9999"
    by code_simp
  have h3: "0 < (1::nat) \<and> 1 < length ?ps \<and> pmcid (?ps ! 0) = pmcid (?ps ! 1)"
    by code_simp
  have old: "authors (?ps ! 0) = ''Jo Doe''" "uid (?ps ! 0) = ''111''"
    by code_simp+
  have new: "pmc_authors ex_pmc_77 = [''Al Roe'']"
    by code_simp
  note t = enrichment_joins_first_record
             [of 0 ?ps ex_pmc_77 1 "[ex_pmc_77]" "[]" "[]" "?ps ! 0" "pmc_id ex_pmc_77"]
  from t h1 h3
  have step: "enrich_step ?ps ex_pmc_77 = ?ps [0 := overlay (?ps ! 0) ex_pmc_77 (pmc_id ex_pmc_77)]"
    and dup: "enrich ?ps [ex_pmc_77] ! 1 = ?ps ! 1"
    and len: "length (enrich ?ps [ex_pmc_77]) = length ?ps"
    and pass: "enrich ?ps ([] @ ex_pmc_77 # []) =
                 enrich ((enrich ?ps [])
                   [0 := overlay (enrich ?ps [] ! 0) ex_pmc_77 (pmc_id ex_pmc_77)]) []"
    and fields: "authorsArray (overlay (?ps ! 0) ex_pmc_77 (pmc_id ex_pmc_77)) = pmc_authors ex_pmc_77"
      "authors (overlay (?ps ! 0) ex_pmc_77 (pmc_id ex_pmc_77)) = join '', '' (pmc_authors ex_pmc_77)"
      "uid (overlay (?ps ! 0) ex_pmc_77 (pmc_id ex_pmc_77)) = uid (?ps ! 0)"
    by blast+
  from enrichment_joins_first_record [of 0 ?ps ex_pmc_9999 0 "[]" "[]" "[]" "?ps ! 0" "[]"] h2
  have none: "enrich_step ?ps ex_pmc_9999 = ?ps"
    by blast
  from pass h1 have first: "enrich ?ps [ex_pmc_77] ! 0 = overlay (?ps ! 0) ex_pmc_77 (pmc_id ex_pmc_77)"
    by (simp add: enrich_def)
  from step none dup len old show ?thesis
    by (simp add: first fields new)
qed


section \<open>Properties of the overlay\<close>

lemma dropWhile_id: "xs = [] \<or> \<not> P (hd xs) \<Longrightarrow> dropWhile P xs = xs"
  by (cases xs) auto

lemma last_dropWhile: "dropWhile P xs \<noteq> [] \<Longrightarrow> last (dropWhile P xs) = last xs"
  by (induction xs) (auto split: if_splits)

lemma trim_idem: "trim (trim s) = trim s"
proof -
  define u where "u = dropWhile is_ws s"
  define v where "v = dropWhile is_ws (rev u)"
  have t: "trim s = rev v"
    by (simp add: trim_def u_def v_def)
  show ?thesis
  proof (cases "v = []")
    case True
    have e: "trim [] = []"
      by (simp add: trim_def)
    from True t show ?thesis by (simp add: e)
  next
    case False
    then have hv: "\<not> is_ws (hd v)"
      unfolding v_def by (rule hd_dropWhile)
    from False have "rev u \<noteq> []"
      by (auto simp: v_def)
    then have un: "u \<noteq> []" by simp
    then have hu: "\<not> is_ws (hd u)"
      unfolding u_def by (rule hd_dropWhile)
    have "last v = last (rev u)"
      using False unfolding v_def by (rule last_dropWhile)
    also have "\<dots> = hd u"
      using un by (simp add: last_rev)
    finally have lv: "\<not> is_ws (last v)"
      using hu by simp
    have "hd (rev v) = last v"
      using False by (simp add: hd_rev)
    with lv have 1: "dropWhile is_ws (rev v) = rev v"
      by (intro dropWhile_id) simp
    from hv have 2: "dropWhile is_ws v = v"
      by (intro dropWhile_id) simp
    show ?thesis
      unfolding t by (simp add: trim_def 1 2)
  qed
qed

lemma pubmed_paper_trimmed:
  "trim (title (pubmed_paper art)) = title (pubmed_paper art)"
  "trim (articletitle (pubmed_paper art)) = articletitle (pubmed_paper art)"
  "trim (source (pubmed_paper art)) = source (pubmed_paper art)"
  by (simp_all add: pubmed_paper_def Let_def trim_idem)

lemma pubmed_papers_nth:
  "i < length (pubmed_papers xmlDoc) \<Longrightarrow> \<exists>art. pubmed_papers xmlDoc ! i = pubmed_paper art"
  by (auto simp: pubmed_papers_def)

lemma pmc_pubDate_initial:
  "pmc_pubDate initial article =
     (if pmc_pubDate [] article = [] then initial else pmc_pubDate [] article)"
  by (simp add: pmc_pubDate_def Let_def split: option.splits)

lemma overlay_fields:
  "authors (overlay p article (pmc_id article)) = authors (pmc_paper article)"
  "authorsArray (overlay p article (pmc_id article)) = authorsArray (pmc_paper article)"
  "pdfUrl (overlay p article (pmc_id article)) = pdfUrl (pmc_paper article)"
  "title (overlay p article (pmc_id article)) =
     (if text_or_empty (querySelector article (Sel (Tag ''article-title''))) = []
      then trim (title p) else title (pmc_paper article))"
  "articletitle (overlay p article (pmc_id article)) =
     (if pmc_abstract_paragraphs article = [] then trim (articletitle p)
      else articletitle (pmc_paper article))"
  "source (overlay p article (pmc_id article)) =
     (if text_or_empty (querySelector article (Sel (Tag ''journal-title''))) = []
      then trim (source p) else source (pmc_paper article))"
  "pubdate (overlay p article (pmc_id article)) =
     (if pubdate (pmc_paper article) = [] then pubdate p else pubdate (pmc_paper article))"
  "sortfirstauthor (overlay p article (pmc_id article)) =
     (if authorsArray (pmc_paper article) = [] then sortfirstauthor p
      else sortfirstauthor (pmc_paper article))"
proof -
  show "pubdate (overlay p article (pmc_id article)) =
     (if pubdate (pmc_paper article) = [] then pubdate p else pubdate (pmc_paper article))"
    using pmc_pubDate_initial [of "pubdate p" article]
    by (simp add: overlay_def pmc_paper_def Let_def)
  show "sortfirstauthor (overlay p article (pmc_id article)) =
     (if authorsArray (pmc_paper article) = [] then sortfirstauthor p
      else sortfirstauthor (pmc_paper article))"
    by (cases "pmc_authors article") (simp_all add: overlay_def pmc_paper_def Let_def)
qed (simp_all add: overlay_def pmc_paper_def pmc_abstract_def Let_def)

lemma enrich_single_overlay:
  assumes d: "distinct (map pmc_id pmcArticles)"
    and a: "article \<in> set pmcArticles"
    and i: "i < length papers" "pmcid (papers ! i) = pmc_id article"
      "\<forall>k<i. pmcid (papers ! k) \<noteq> pmc_id article"
  shows "enrich papers pmcArticles ! i = overlay (papers ! i) article (pmc_id article)"
proof -
  from a obtain xs ys where s: "pmcArticles = xs @ article # ys"
    by (auto simp: in_set_conv_decomp)
  from d s have nx: "\<forall>x\<in>set xs. pmc_id x \<noteq> pmc_id article"
    and ny: "\<forall>y\<in>set ys. pmc_id y \<noteq> pmc_id article"
    by (fastforce simp: image_iff)+
  define ps1 where "ps1 = enrich papers xs"
  define ps2 where "ps2 = enrich_step ps1 article"
  have e: "enrich papers pmcArticles = enrich ps2 ys"
    by (simp add: s enrich_append enrich_Cons ps1_def ps2_def)
  have fi: "findIndex (\<lambda>p. pmcid p = pmc_id article) papers = Some i"
    using i by (simp add: findIndex_Some)
  have other: "findIndex (\<lambda>p. pmcid p = k) papers \<noteq> Some i" if "k \<noteq> pmc_id article" for k
    using that i(2) by (auto simp: findIndex_Some)
  have m1: "map pmcid ps1 = map pmcid papers"
    by (simp add: ps1_def enrich_pmcids)
  have l1: "length ps1 = length papers"
    by (simp add: ps1_def enrich_length)
  have f1: "findIndex (\<lambda>p. pmcid p = k) ps1 = findIndex (\<lambda>p. pmcid p = k) papers" for k
    by (simp add: findIndex_map [of pmcid] m1)
  have f2: "findIndex (\<lambda>p. pmcid p = k) ps2 = findIndex (\<lambda>p. pmcid p = k) papers" for k
    by (simp add: ps2_def findIndex_enrich_step f1)
  have 1: "ps1 ! i = papers ! i"
    unfolding ps1_def using i(1) nx by (intro enrich_untouched) (auto simp: other)
  have 2: "ps2 ! i = overlay (papers ! i) article (pmc_id article)"
    using i(1) by (simp add: ps2_def enrich_step_nth l1 f1 fi 1)
  have "enrich ps2 ys ! i = ps2 ! i"
    using i(1) ny by (intro enrich_untouched) (auto simp: ps2_def enrich_step_length l1 f2 [unfolded ps2_def] other)
  with e 2 show ?thesis by simp
qed

text \<open>
  Claim C1, as amended. Let the records come from the PubMed pass, let the PMC articles
  returned to the enrichment pass have pairwise different sanitized identifiers, and let a
  record be the first of the batch whose \<open>pmcid\<close> equals the identifier of a returned article.
  After the pass, \<open>authors\<close>, \<open>authorsArray\<close> and \<open>pdfUrl\<close> of that record equal the PMC
  extraction of the article. \<open>title\<close> and \<open>source\<close> equal the PMC extraction when the article
  has a non-empty \<open>article-title\<close> or \<open>journal-title\<close> text, \<open>articletitle\<close> when the article
  has an abstract paragraph, \<open>pubdate\<close> when the PMC extraction of the date is not empty;
  otherwise the field keeps its value from the PubMed pass. \<open>pmcid\<close> and \<open>uid\<close> are kept.
\<close>

theorem enrichment_overlays_pmc_fields:
  assumes "papers = pubmed_papers xmlDoc"
    and "distinct (map pmc_id pmcArticles)"
    and "article \<in> set pmcArticles"
    and "i < length papers" and "pmcid (papers ! i) = pmc_id article"
    and "\<forall>k<i. pmcid (papers ! k) \<noteq> pmc_id article"
    and "r = enrich papers pmcArticles ! i"
  shows "authors r = authors (pmc_paper article)
       \<and> authorsArray r = authorsArray (pmc_paper article)
       \<and> pdfUrl r = pdfUrl (pmc_paper article)
       \<and> title r = (if text_or_empty (querySelector article (Sel (Tag ''article-title''))) = []
                    then title (papers ! i) else title (pmc_paper article))
       \<and> articletitle r = (if pmc_abstract_paragraphs article = []
                           then articletitle (papers ! i) else articletitle (pmc_paper article))
       \<and> source r = (if text_or_empty (querySelector article (Sel (Tag ''journal-title''))) = []
                     then source (papers ! i) else source (pmc_paper article))
       \<and> pubdate r = (if pubdate (pmc_paper article) = []
                      then pubdate (papers ! i) else pubdate (pmc_paper article))
       \<and> pmcid r = pmcid (papers ! i) \<and> uid r = uid (papers ! i)"
proof -
  from assms(1,4) obtain art where p: "papers ! i = pubmed_paper art"
    using pubmed_papers_nth by blast
  have r: "r = overlay (papers ! i) article (pmc_id article)"
    unfolding assms(7) using assms(2,3,4,5,6) by (rule enrich_single_overlay)
  show ?thesis
    unfolding r by (simp add: overlay_fields overlay_pmcid overlay_uid p pubmed_paper_trimmed)
qed

text \<open>The theorem at the first record of the example answer and the PMC article \<open>77\<close>, which
  has authors, an abstract and a PDF link but no title, journal or date.\<close>

theorem enrichment_overlays_pmc_fields_witness:
  "authors (enrich (pubmed_papers ex_pubmed_doc) [ex_pmc_77] ! 0) = ''Al Roe''
   \<and> authorsArray (enrich (pubmed_papers ex_pubmed_doc) [ex_pmc_77] ! 0) = [''Al Roe'']
   \<and> pdfUrl (enrich (pubmed_papers ex_pubmed_doc) [ex_pmc_77] ! 0) =
        ''https://www.ncbi.nlm.nih.gov/pmc/articles/PMC77/pdf/''
   \<and> title (enrich (pubmed_papers ex_pubmed_doc) [ex_pmc_77] ! 0) = ''A title''
   \<and> articletitle (enrich (pubmed_papers ex_pubmed_doc) [ex_pmc_77] ! 0) = ''Full text.''
   \<and> source (enrich (pubmed_papers ex_pubmed_doc) [ex_pmc_77] ! 0) = ''A journal''
   \<and> pubdate (enrich (pubmed_papers ex_pubmed_doc) [ex_pmc_77] ! 0) = ''2021''
   \<and> pmcid (enrich (pubmed_papers ex_pubmed_doc) [ex_pmc_77] ! 0) = ''77''
   \<and> uid (enrich (pubmed_papers ex_pubmed_doc) [ex_pmc_77] ! 0) = ''111''"
proof -
  have h1: "pubmed_papers ex_pubmed_doc = pubmed_papers ex_pubmed_doc" ..
  have h2: "distinct (map pmc_id [ex_pmc_77])"
    by simp
  have h3: "ex_pmc_77 \<in> set [ex_pmc_77]"
    by simp
  have h4: "0 < length (pubmed_papers ex_pubmed_doc)"
    by code_simp
  have h5: "pmcid (pubmed_papers ex_pubmed_doc ! 0) = pmc_id ex_pmc_77"
    by code_simp
  have h6: "\<forall>k<0. pmcid (pubmed_papers ex_pubmed_doc ! k) \<noteq> pmc_id ex_pmc_77"
    by simp
  have h7: "enrich (pubmed_papers ex_pubmed_doc) [ex_pmc_77] ! 0 =
            enrich (pubmed_papers ex_pubmed_doc) [ex_pmc_77] ! 0" ..
  have x: "authors (pmc_paper ex_pmc_77) = ''Al Roe''"
    "authorsArray (pmc_paper ex_pmc_77) = [''Al Roe'']"
    "pdfUrl (pmc_paper ex_pmc_77) = ''https://www.ncbi.nlm.nih.gov/pmc/articles/PMC77/pdf/''"
    "articletitle (pmc_paper ex_pmc_77) = ''Full text.''"
    "pubdate (pmc_paper ex_pmc_77) = []"
    "text_or_empty (querySelector ex_pmc_77 (Sel (Tag ''article-title''))) = []"
    "text_or_empty (querySelector ex_pmc_77 (Sel (Tag ''journal-title''))) = []"
    "pmc_abstract_paragraphs ex_pmc_77 \<noteq> []"
    by code_simp+
  have p: "title (pubmed_papers ex_pubmed_doc ! 0) = ''A title''"
    "source (pubmed_papers ex_pubmed_doc ! 0) = ''A journal''"
    "pubdate (pubmed_papers ex_pubmed_doc ! 0) = ''2021''"
    "pmcid (pubmed_papers ex_pubmed_doc ! 0) = ''77''"
    "uid (pubmed_papers ex_pubmed_doc ! 0) = ''111''"
    by code_simp+
  from enrichment_overlays_pmc_fields [OF h1 h2 h3 h4 h5 h6 h7] show ?thesis
    by (simp add: x p)
qed

text \<open>Claim C1 as first stated fails on the example answer: both records have the
  non-empty \<open>pmcid\<close> \<open>77\<close> and PMC returns the article \<open>77\<close>; the PMC extraction of its title
  and journal is empty, but the first record keeps the PubMed title and journal, and the
  second record, which has the same \<open>pmcid\<close>, is not overlaid at all.\<close>

theorem enrichment_overlays_pmc_fields_counterexample:
  "map pmcid (pubmed_papers ex_pubmed_doc) = [''77'', ''77'']
   \<and> doc_querySelectorAll ex_pmc_doc (Sel (Tag ''article'')) = [ex_pmc_77]
   \<and> pmcid (pmc_paper ex_pmc_77) = ''77''
   \<and> title (pmc_paper ex_pmc_77) = []
   \<and> title (enrich (pubmed_papers ex_pubmed_doc) [ex_pmc_77] ! 0) = ''A title''
   \<and> source (pmc_paper ex_pmc_77) = []
   \<and> source (enrich (pubmed_papers ex_pubmed_doc) [ex_pmc_77] ! 0) = ''A journal''
   \<and> authors (pmc_paper ex_pmc_77) = ''Al Roe''
   \<and> authors (enrich (pubmed_papers ex_pubmed_doc) [ex_pmc_77] ! 1) = []"
  by code_simp


section \<open>Properties of the search endpoint\<close>

lemma status_invalid_database: "status invalid_database = 400"
  by (simp add: invalid_database_def)

text \<open>
  Claim C7. A request to the search endpoint, whatever its method apart from the \<open>OPTIONS\<close>
  preflight, whose \<open>db\<close> is not one of \<open>pubmed\<close> and \<open>pmc\<close>, or whose \<open>retstart\<close> does not
  parse as a non-negative integer, or whose \<open>retmax\<close> does not parse as a positive integer of
  at most 10000, is answered with a 4xx status, and no outbound call is made.
\<close>

theorem search_validation_rejects:
  assumes m: "req_method req \<noteq> ''OPTIONS''"
    and v: "supported_db (query_param req ''db'') = None
         \<or> isNaN (parse_param (Num 0) (query_param req ''retstart''))
         \<or> num_lt (parse_param (Num 0) (query_param req ''retstart'')) (Num 0)
         \<or> isNaN (parse_param (Num 10) (query_param req ''retmax''))
         \<or> num_le (parse_param (Num 10) (query_param req ''retmax'')) (Num 0)
         \<or> num_lt (Num 10000) (parse_param (Num 10) (query_param req ''retmax''))"
  shows "400 \<le> status (fst (search_handler net req))
       \<and> status (fst (search_handler net req)) < 500
       \<and> snd (search_handler net req) = []"
proof (cases "supported_db (query_param req ''db'')")
  case None
  with m show ?thesis
    by (simp add: search_handler_def status_invalid_database)
next
  case db: (Some d)
  show ?thesis
  proof (cases "isNaN (parse_param (Num 0) (query_param req ''retstart''))
                \<or> num_lt (parse_param (Num 0) (query_param req ''retstart'')) (Num 0)")
    case True
    with m db show ?thesis
      by (simp add: search_handler_def Let_def)
  next
    case False
    with v db
    have bad: "isNaN (parse_param (Num 10) (query_param req ''retmax''))
         \<or> num_le (parse_param (Num 10) (query_param req ''retmax'')) (Num 0)
         \<or> num_lt (Num 10000) (parse_param (Num 10) (query_param req ''retmax''))"
      by simp
    with m db False show ?thesis
      by (simp add: search_handler_def Let_def)
  qed
qed

text \<open>The theorem at requests with \<open>retmax\<close> 0, \<open>-5\<close> and 10001, with the database
  \<open>nuccore\<close>, and with the \<open>retstart\<close> \<open>first\<close>.\<close>

theorem search_validation_rejects_witness:
  "(400 \<le> status (fst (search_handler ex_esearch (ex_bad_request ''pmc'' ''0'' ''0'')))
     \<and> status (fst (search_handler ex_esearch (ex_bad_request ''pmc'' ''0'' ''0''))) < 500
     \<and> snd (search_handler ex_esearch (ex_bad_request ''pmc'' ''0'' ''0'')) = [])
   \<and> (400 \<le> status (fst (search_handler ex_esearch (ex_bad_request ''pmc'' ''0'' ''-5'')))
     \<and> status (fst (search_handler ex_esearch (ex_bad_request ''pmc'' ''0'' ''-5''))) < 500
     \<and> snd (search_handler ex_esearch (ex_bad_request ''pmc'' ''0'' ''-5'')) = [])
   \<and> (400 \<le> status (fst (search_handler ex_esearch (ex_bad_request ''pmc'' ''0'' ''10001'')))
     \<and> status (fst (search_handler ex_esearch (ex_bad_request ''pmc'' ''0'' ''10001''))) < 500
     \<and> snd (search_handler ex_esearch (ex_bad_request ''pmc'' ''0'' ''10001'')) = [])
   \<and> (400 \<le> status (fst (search_handler ex_esearch (ex_bad_request ''nuccore'' ''0'' ''10'')))
     \<and> status (fst (search_handler ex_esearch (ex_bad_request ''nuccore'' ''0'' ''10''))) < 500
     \<and> snd (search_handler ex_esearch (ex_bad_request ''nuccore'' ''0'' ''10'')) = [])
   \<and> (400 \<le> status (fst (search_handler ex_esearch (ex_bad_request ''pmc'' ''first'' ''10'')))
     \<and> status (fst (search_handler ex_esearch (ex_bad_request ''pmc'' ''first'' ''10''))) < 500
     \<and> snd (search_handler ex_esearch (ex_bad_request ''pmc'' ''first'' ''10'')) = [])"
proof -
  have m: "req_method (ex_bad_request d s n) \<noteq> ''OPTIONS''" for d s n
    by (simp add: ex_bad_request_def)
  have zero: "num_le (parse_param (Num 10) (query_param (ex_bad_request ''pmc'' ''0'' ''0'') ''retmax''))
                (Num 0)"
    by code_simp
  have negative:
    "num_le (parse_param (Num 10) (query_param (ex_bad_request ''pmc'' ''0'' ''-5'') ''retmax''))
       (Num 0)"
    by code_simp
  have large:
    "num_lt (Num 10000)
       (parse_param (Num 10) (query_param (ex_bad_request ''pmc'' ''0'' ''10001'') ''retmax''))"
    by code_simp
  have db: "supported_db (query_param (ex_bad_request ''nuccore'' ''0'' ''10'') ''db'') = None"
    by code_simp
  have start:
    "isNaN (parse_param (Num 0) (query_param (ex_bad_request ''pmc'' ''first'' ''10'') ''retstart''))"
    by code_simp
  from search_validation_rejects [OF m, of "''pmc''" "''0''" "''0''" ex_esearch] zero
    search_validation_rejects [OF m, of "''pmc''" "''0''" "''-5''" ex_esearch] negative
    search_validation_rejects [OF m, of "''pmc''" "''0''" "''10001''" ex_esearch] large
    search_validation_rejects [OF m, of "''nuccore''" "''0''" "''10''" ex_esearch] db
    search_validation_rejects [OF m, of "''pmc''" "''first''" "''10''" ex_esearch] start
  show ?thesis by blast
qed

text \<open>
  Claim C6, as amended. For a valid search request whose first upstream call is answered
  with status 200 and a body that carries no embedded \<open>ERROR\<close> field, contains both session
  tokens and reports a count that the parsed \<open>retstart\<close> reaches or exceeds, the endpoint
  answers 200 with \<open>{ids: [], total: count, retstart, retmax}\<close>, and the history search is
  the only outbound call. The numbers of the answer are the parsed ones, that is, rounded
  to doubles.
\<close>

theorem search_short_circuit:
  assumes "req_method req = ''GET''"
    and "truthy_param (query_param req ''term'')"
    and "supported_db (query_param req ''db'') = Some db"
    and "start = parse_param (Num 0) (query_param req ''retstart'')"
    and "\<not> isNaN start" and "\<not> num_lt start (Num 0)"
    and "mx = parse_param (Num 10) (query_param req ''retmax'')"
    and "\<not> isNaN mx" and "\<not> num_le mx (Num 0)" and "\<not> num_lt (Num 10000) mx"
    and "net (ESearchHistory db (param_string (query_param req ''term''))) =
           Fulfilled 200 (Some r)"
    and "\<not> truthy (ERROR r)"
    and "truthy (webenv r)" and "truthy (querykey r)"
    and "num_le (parse_count r) start"
  shows "search_handler net req =
           (Response 200 (SearchBody [] (parse_count r) start mx),
            [ESearchHistory db (param_string (query_param req ''term''))])"
proof -
  have "search_handler net req =
          search_history net db (param_string (query_param req ''term'')) start mx"
    using assms(1-10) by (simp add: search_handler_def Let_def)
  also have "\<dots> = (Response 200 (SearchBody [] (parse_count r) start mx),
            [ESearchHistory db (param_string (query_param req ''term''))])"
    using assms(11-15) by (simp add: search_history_def Let_def)
  finally show ?thesis .
qed

text \<open>The theorem at the request for the page starting at 200 of a search with 157 hits,
  and at the same request with the \<open>retstart\<close> 9007199254740993, which is answered with the
  rounded 9007199254740992.\<close>

theorem search_short_circuit_witness:
  "search_handler ex_esearch ex_search_request =
     (Response 200 (SearchBody [] (Num 157) (Num 200) (Num 10)),
      [ESearchHistory ''pmc'' ''cancer''])
   \<and> search_handler ex_esearch ex_far_request =
     (Response 200 (SearchBody [] (Num 157) (Num 9007199254740992) (Num 10)),
      [ESearchHistory ''pmc'' ''cancer''])"
proof -
  have c: "parse_count ex_esearchresult = Num 157"
    by code_simp
  have r: "\<not> truthy (ERROR ex_esearchresult)" "truthy (webenv ex_esearchresult)"
    "truthy (querykey ex_esearchresult)"
    by code_simp+
  have near: "search_handler ex_esearch ex_search_request =
     (Response 200 (SearchBody [] (Num 157) (Num 200) (Num 10)),
      [ESearchHistory ''pmc'' ''cancer''])"
  proof -
    have h1: "req_method ex_search_request = ''GET''"
      and h2: "truthy_param (query_param ex_search_request ''term'')"
      and h3: "supported_db (query_param ex_search_request ''db'') = Some ''pmc''"
      and h4: "Num 200 = parse_param (Num 0) (query_param ex_search_request ''retstart'')"
      and h7: "Num 10 = parse_param (Num 10) (query_param ex_search_request ''retmax'')"
      and t: "param_string (query_param ex_search_request ''term'') = ''cancer''"
      by code_simp+
    have h5: "\<not> isNaN (Num 200)" and h6: "\<not> num_lt (Num 200) (Num 0)"
      and h8: "\<not> isNaN (Num 10)" and h9: "\<not> num_le (Num 10) (Num 0)"
      and h10: "\<not> num_lt (Num 10000) (Num 10)"
      by (simp_all add: isNaN_def num_le_def)
    have h11: "ex_esearch (ESearchHistory ''pmc''
                 (param_string (query_param ex_search_request ''term''))) =
               Fulfilled 200 (Some ex_esearchresult)"
      by (simp add: ex_esearch_def)
    have h15: "num_le (parse_count ex_esearchresult) (Num 200)"
      by (simp add: c num_le_def)
    from search_short_circuit
           [where net = ex_esearch, OF h1 h2 h3 h4 h5 h6 h7 h8 h9 h10 h11 r h15]
    show ?thesis
      by (simp add: c t)
  qed
  have far: "search_handler ex_esearch ex_far_request =
     (Response 200 (SearchBody [] (Num 157) (Num 9007199254740992) (Num 10)),
      [ESearchHistory ''pmc'' ''cancer''])"
  proof -
    have h1: "req_method ex_far_request = ''GET''"
      and h2: "truthy_param (query_param ex_far_request ''term'')"
      and h3: "supported_db (query_param ex_far_request ''db'') = Some ''pmc''"
      and h4: "Num 9007199254740992 = parse_param (Num 0) (query_param ex_far_request ''retstart'')"
      and h7: "Num 10 = parse_param (Num 10) (query_param ex_far_request ''retmax'')"
      and t: "param_string (query_param ex_far_request ''term'') = ''cancer''"
      by code_simp+
    have h5: "\<not> isNaN (Num 9007199254740992)" and h6: "\<not> num_lt (Num 9007199254740992) (Num 0)"
      and h8: "\<not> isNaN (Num 10)" and h9: "\<not> num_le (Num 10) (Num 0)"
      and h10: "\<not> num_lt (Num 10000) (Num 10)"
      by (simp_all add: isNaN_def num_le_def)
    have h11: "ex_esearch (ESearchHistory ''pmc''
                 (param_string (query_param ex_far_request ''term''))) =
               Fulfilled 200 (Some ex_esearchresult)"
      by (simp add: ex_esearch_def)
    have h15: "num_le (parse_count ex_esearchresult) (Num 9007199254740992)"
      by (simp add: c num_le_def)
    from search_short_circuit
           [where net = ex_esearch, OF h1 h2 h3 h4 h5 h6 h7 h8 h9 h10 h11 r h15]
    show ?thesis
      by (simp add: c t)
  qed
  from near far show ?thesis ..
qed

text \<open>Claim C6 as first stated fails when the first answer carries both tokens and a count of
  157 below the \<open>retstart\<close> 200, but also an embedded \<open>ERROR\<close> field: the endpoint answers
  500.\<close>

theorem search_short_circuit_counterexample:
  "truthy (webenv (ex_esearchresult \<lparr> ERROR := Some ''Backend failed'' \<rparr>))
   \<and> truthy (querykey (ex_esearchresult \<lparr> ERROR := Some ''Backend failed'' \<rparr>))
   \<and> parse_count (ex_esearchresult \<lparr> ERROR := Some ''Backend failed'' \<rparr>) = Num 157
   \<and> parse_param (Num 0) (query_param ex_search_request ''retstart'') = Num 200
   \<and> num_le (Num 157) (Num 200)
   \<and> ex_esearch_error (ESearchHistory ''pmc'' ''cancer'') =
       Fulfilled 200 (Some (ex_esearchresult \<lparr> ERROR := Some ''Backend failed'' \<rparr>))
   \<and> search_handler ex_esearch_error ex_search_request =
       (Response 500 (ErrorBody ''ESearch History API Error: Backend failed'' None),
        [ESearchHistory ''pmc'' ''cancer''])"
  by code_simp


section \<open>Properties of failed outbound calls\<close>

lemma search_page_last:
  "search_page net db qk we s m cnt cs = (resp, calls) \<Longrightarrow>
   calls \<noteq> [] \<and> (net (last calls) = Rejected e \<longrightarrow> resp = search_catch e)"
  by (auto simp: search_page_def Let_def split: outcome.splits option.splits if_splits)

lemma search_history_last:
  "search_history net db trm s m = (resp, calls) \<Longrightarrow>
   calls \<noteq> [] \<and> (net (last calls) = Rejected e \<longrightarrow> resp = search_catch e)"
  by (auto simp: search_history_def Let_def
        split: outcome.splits option.splits if_splits dest: search_page_last)

lemma search_handler_last:
  assumes "search_handler net req = (resp, calls)" "calls \<noteq> []" "net (last calls) = Rejected e"
  shows "resp = search_catch e"
proof -
  from assms(1,2) obtain db trm s m where "search_history net db trm s m = (resp, calls)"
    by (auto simp: search_handler_def Let_def split: if_splits option.splits)
  with assms(3) show ?thesis
    by (auto dest: search_history_last)
qed

lemma papers_fetch_last:
  "papers_fetch net db ids = (resp, calls) \<Longrightarrow> calls \<noteq> [] \<Longrightarrow> net (last calls) = Rejected e \<Longrightarrow>
   resp = papers_catch (error_message e)"
  by (auto simp: papers_fetch_def papers_enrich_def Let_def
        split: outcome.splits xml_body.splits if_splits sum.splits prod.splits)

lemma papers_handler_cases:
  "papers_handler net req = (resp, calls) \<Longrightarrow>
   calls = [] \<or> (\<exists>db ids. ids \<noteq> [] \<and> papers_fetch net db ids = (resp, calls))"
  by (auto simp: papers_handler_def
        split: if_splits option.splits json.splits list.splits sum.splits)

lemma papers_handler_last:
  assumes "papers_handler net req = (resp, calls)" "calls \<noteq> []" "net (last calls) = Rejected e"
  shows "resp = papers_catch (error_message e)"
  using papers_handler_cases [OF assms(1)] assms(2,3) by (auto dest: papers_fetch_last)

lemma paper_from_pmc_last:
  "paper_from_pmc net i cs = (resp, calls) \<Longrightarrow>
   calls \<noteq> [] \<and> (net (last calls) = Rejected e \<longrightarrow> resp = paper_catch (error_message e))"
  by (auto simp: paper_from_pmc_def Let_def
        split: outcome.splits xml_body.splits option.splits)

lemma paper_handler_last:
  assumes "paper_handler net req = (resp, calls)" "calls \<noteq> []" "net (last calls) = Rejected e"
  shows "resp = paper_catch (error_message e)"
  using assms
  by (auto simp: paper_handler_def Let_def
        split: if_splits option.splits qparam.splits outcome.splits xml_body.splits
        dest: paper_from_pmc_last)

text \<open>
  Claim C8, as amended. When the last outbound call of a handler was rejected, the search
  endpoint answers with the upstream status and the upstream body as details when the
  rejection carries a response, with 500 and the error message when no response was
  received, and with 500 and the error message otherwise. The batch endpoint and the
  single-paper endpoint answer 500 with the error message as details in every case,
  whatever status the upstream gave.
\<close>

theorem transport_errors_surface:
  "(snd (search_handler snet req) = calls \<and> calls \<noteq> [] \<and> snet (last calls) = Rejected e
      \<longrightarrow> fst (search_handler snet req) =
            (case e of
               HttpError st dat msg \<Rightarrow>
                 Response st (ErrorBody (''ESearch/ESearch API Error: '' @ string_of_nat st)
                               (Some dat))
             | NoResponse msg \<Rightarrow>
                 Response 500 (ErrorBody ''No response from ESearch/ESearch API'' (Some msg))
             | OtherError msg \<Rightarrow>
                 Response 500 (ErrorBody ''Internal Server Error during search'' (Some msg))))
   \<and> (snd (papers_handler xnet req) = calls \<and> calls \<noteq> [] \<and> xnet (last calls) = Rejected e
      \<longrightarrow> fst (papers_handler xnet req) =
            Response 500 (ErrorBody ''Failed to fetch papers'' (Some (error_message e))))
   \<and> (snd (paper_handler xnet req) = calls \<and> calls \<noteq> [] \<and> xnet (last calls) = Rejected e
      \<longrightarrow> fst (paper_handler xnet req) =
            Response 500 (ErrorBody ''Failed to fetch paper details'' (Some (error_message e))))"
proof -
  have s: "fst (search_handler snet req) = search_catch e"
    if "snd (search_handler snet req) = calls \<and> calls \<noteq> [] \<and> snet (last calls) = Rejected e"
    using that search_handler_last [of snet req "fst (search_handler snet req)" calls e]
    by (simp add: prod_eq_iff)
  have p: "fst (papers_handler xnet req) = papers_catch (error_message e)"
    if "snd (papers_handler xnet req) = calls \<and> calls \<noteq> [] \<and> xnet (last calls) = Rejected e"
    using that papers_handler_last [of xnet req "fst (papers_handler xnet req)" calls e]
    by (simp add: prod_eq_iff)
  have q: "fst (paper_handler xnet req) = paper_catch (error_message e)"
    if "snd (paper_handler xnet req) = calls \<and> calls \<noteq> [] \<and> xnet (last calls) = Rejected e"
    using that paper_handler_last [of xnet req "fst (paper_handler xnet req)" calls e]
    by (simp add: prod_eq_iff)
  have c: "search_catch e =
            (case e of
               HttpError st dat msg \<Rightarrow>
                 Response st (ErrorBody (''ESearch/ESearch API Error: '' @ string_of_nat st)
                               (Some dat))
             | NoResponse msg \<Rightarrow>
                 Response 500 (ErrorBody ''No response from ESearch/ESearch API'' (Some msg))
             | OtherError msg \<Rightarrow>
                 Response 500 (ErrorBody ''Internal Server Error during search'' (Some msg)))"
    by (cases e) simp_all
  from s p q show ?thesis
    unfolding c [symmetric] papers_catch_def [symmetric] paper_catch_def [symmetric]
    by blast
qed

text \<open>The theorem at an upstream that rejects every call with status 429.\<close>

theorem transport_errors_surface_witness:
  "fst (search_handler ex_rejecting_esearch ex_search_request) =
     Response 429 (ErrorBody ''ESearch/ESearch API Error: 429'' (Some ''Too Many Requests''))
   \<and> fst (papers_handler ex_rejecting_efetch ex_papers_request) =
     Response 500 (ErrorBody ''Failed to fetch papers''
                    (Some ''Request failed with status code 429''))
   \<and> fst (paper_handler ex_rejecting_efetch ex_paper_request) =
     Response 500 (ErrorBody ''Failed to fetch paper details''
                    (Some ''Request failed with status code 429''))"
proof -
  have h1: "snd (search_handler ex_rejecting_esearch ex_search_request) =
              [ESearchHistory ''pmc'' ''cancer'']
            \<and> [ESearchHistory ''pmc'' ''cancer''] \<noteq> []
            \<and> ex_rejecting_esearch (last [ESearchHistory ''pmc'' ''cancer'']) = Rejected ex_http_429"
    by code_simp
  have h2: "snd (papers_handler ex_rejecting_efetch ex_papers_request) =
              [EFetch ''pubmed'' ''111,112,113'']
            \<and> [EFetch ''pubmed'' ''111,112,113''] \<noteq> []
            \<and> ex_rejecting_efetch (last [EFetch ''pubmed'' ''111,112,113'']) = Rejected ex_http_429"
    by code_simp
  have h3: "snd (paper_handler ex_rejecting_efetch ex_paper_request) = [EFetch ''pubmed'' ''111'']
            \<and> [EFetch ''pubmed'' ''111''] \<noteq> []
            \<and> ex_rejecting_efetch (last [EFetch ''pubmed'' ''111'']) = Rejected ex_http_429"
    by code_simp
  have n: "string_of_nat 429 = ''429''"
    by code_simp
  from transport_errors_surface
         [of ex_rejecting_esearch ex_search_request "[ESearchHistory ''pmc'' ''cancer'']"
             ex_http_429 ex_rejecting_efetch]
       h1
  have a: "fst (search_handler ex_rejecting_esearch ex_search_request) =
     Response 429 (ErrorBody ''ESearch/ESearch API Error: 429'' (Some ''Too Many Requests''))"
    by (simp add: ex_http_429_def n)
  from transport_errors_surface
         [of ex_rejecting_esearch ex_papers_request "[EFetch ''pubmed'' ''111,112,113'']"
             ex_http_429 ex_rejecting_efetch]
       h2
  have b: "fst (papers_handler ex_rejecting_efetch ex_papers_request) =
     Response 500 (ErrorBody ''Failed to fetch papers''
                    (Some ''Request failed with status code 429''))"
    by (simp add: ex_http_429_def)
  from transport_errors_surface
         [of ex_rejecting_esearch ex_paper_request "[EFetch ''pubmed'' ''111'']"
             ex_http_429 ex_rejecting_efetch]
       h3
  have c: "fst (paper_handler ex_rejecting_efetch ex_paper_request) =
     Response 500 (ErrorBody ''Failed to fetch paper details''
                    (Some ''Request failed with status code 429''))"
    by (simp add: ex_http_429_def)
  from a b c show ?thesis by blast
qed

text \<open>Claim C8 as first stated fails on the batch and single-paper endpoints: the upstream
  status 429 is available, and both endpoints answer 500.\<close>

theorem transport_errors_surface_counterexample:
  "ex_rejecting_efetch (EFetch ''pubmed'' ''111,112,113'') =
     Rejected (HttpError 429 ''Too Many Requests'' ''Request failed with status code 429'')
   \<and> papers_handler ex_rejecting_efetch ex_papers_request =
       (Response 500 (ErrorBody ''Failed to fetch papers''
                       (Some ''Request failed with status code 429'')),
        [EFetch ''pubmed'' ''111,112,113''])
   \<and> ex_rejecting_efetch (EFetch ''pubmed'' ''111'') =
     Rejected (HttpError 429 ''Too Many Requests'' ''Request failed with status code 429'')
   \<and> paper_handler ex_rejecting_efetch ex_paper_request =
       (Response 500 (ErrorBody ''Failed to fetch paper details''
                       (Some ''Request failed with status code 429'')),
        [EFetch ''pubmed'' ''111''])"
  by code_simp

section \<open>Properties of the batch answer\<close>

lemma papers_fetch_total:
  assumes "papers_fetch net db ids = (Response st (PapersBody papers tot), calls)"
  shows "tot = length papers
       \<and> (\<exists>st' xmlDoc. calls \<noteq> [] \<and> hd calls = EFetch db (join '','' ids)
            \<and> net (hd calls) = Fulfilled st' (WellFormed xmlDoc)
            \<and> length papers =
                length (doc_querySelectorAll xmlDoc
                  (Sel (Tag (if db = ''pubmed'' then ''PubmedArticle'' else ''article'')))))"
  using assms
  by (auto simp: papers_fetch_def papers_enrich_def papers_catch_def Let_def enrich_length
        pubmed_papers_def pmc_papers_def
        split: outcome.splits xml_body.splits if_splits sum.splits prod.splits)

text \<open>
  Claim C9. In every answer of the batch endpoint that carries papers, \<open>total\<close> is the length
  of \<open>papers\<close>, and that is the number of \<open>PubmedArticle\<close> elements (for \<open>db = pubmed\<close>) or
  \<open>article\<close> elements (otherwise) of the document that the first fetch returned; the IDs of
  the request do not enter.
\<close>

theorem papers_total_is_length:
  assumes "papers_handler net req = (Response st (PapersBody papers tot), calls)"
  shows "tot = length papers
       \<and> (\<exists>db ids st' xmlDoc. calls \<noteq> [] \<and> hd calls = EFetch db ids
            \<and> net (hd calls) = Fulfilled st' (WellFormed xmlDoc)
            \<and> length papers =
                length (doc_querySelectorAll xmlDoc
                  (Sel (Tag (if db = ''pubmed'' then ''PubmedArticle'' else ''article'')))))"
proof -
  from assms obtain db ids
    where "papers_fetch net db ids = (Response st (PapersBody papers tot), calls)"
    by (auto simp: papers_handler_def papers_catch_def invalid_database_def
          split: if_splits option.splits json.splits list.splits sum.splits)
  from papers_fetch_total [OF this] show ?thesis
    by blast
qed

text \<open>The theorem at a request with three IDs that is answered with two articles:
  \<open>total\<close> is 2.\<close>

theorem papers_total_is_length_witness:
  "papers_handler ex_efetch ex_papers_request =
     (Response 200 (PapersBody (enrich (pubmed_papers ex_pubmed_doc) [ex_pmc_77]) 2),
      [EFetch ''pubmed'' ''111,112,113'', EFetch ''pmc'' ''77,77''])
   \<and> (2::nat) = length (enrich (pubmed_papers ex_pubmed_doc) [ex_pmc_77])
   \<and> length (doc_querySelectorAll ex_pubmed_doc (Sel (Tag ''PubmedArticle''))) = 2"
proof -
  have h: "papers_handler ex_efetch ex_papers_request =
     (Response 200 (PapersBody (enrich (pubmed_papers ex_pubmed_doc) [ex_pmc_77]) 2),
      [EFetch ''pubmed'' ''111,112,113'', EFetch ''pmc'' ''77,77''])"
    by code_simp
  have n: "length (doc_querySelectorAll ex_pubmed_doc (Sel (Tag ''PubmedArticle''))) = 2"
    by code_simp
  from papers_total_is_length [OF h] h n show ?thesis
    by blast
qed

end
